theory Spec2Isabelle
  imports
    Complex_Main
    "HOL-Library.Char_ord"
    "HOL-Library.List_Lexorder"
    "HOL-Library.Product_Lexorder"
    "HOL-Library.Multiset"
begin

section \<open>Values of the scripts\<close>

text \<open>
  The cells of the provider's statement tables are 64-bit floats. A finite float is
  idealised as a real number: rounding, overflow of a quotient to an infinity and
  underflow to zero are not modelled. The not-a-number value and the two infinities are
  kept, since the scripts treat them differently from finite values.
\<close>

datatype float = NaN | Inf bool | Fin real

datatype exn = KeyError | OverflowError | ValueError | TypeError | ProviderError

text \<open>
  A cell is a float or, in a table of mixed types, an object that is not a number and not
  a missing value (a \<open>str\<close>, for instance). What the scripts observe of such an object is
  its truth value and what \<open>int()\<close> makes of it (an integer, or the exception it raises);
  arithmetic with it raises TypeError.
\<close>

datatype cellval = Num float | Obj bool "exn + int"

text \<open>
  A local variable such as \<open>revenue\<close> holds Python's \<open>None\<close> or a cell of a table:
  a \<open>cellval option\<close>. The values stored in a record (a Python dict) are \<open>None\<close>,
  strings, integers and floats.
\<close>

datatype pyval = PyNone | PyStr string | PyInt int | PyFloat float

type_synonym row = "(string \<times> pyval) list"

record timestamp =
  year :: int
  month :: int
  day :: int

text \<open>
  A statement table: row labels (\<open>index\<close>), period columns and the cells. Labels and
  columns are taken to be unique, as the provider's tables have them, so a lookup by label
  and column is one cell. The columns are timestamps, newest first.
\<close>

record dataframe =
  index :: "string list"
  columns :: "timestamp list"
  cell :: "string \<Rightarrow> timestamp \<Rightarrow> cellval"

text \<open>\<open>df.empty\<close>: one of the two axes has length zero.\<close>

definition empty :: "dataframe \<Rightarrow> bool" where
  "empty df = (index df = [] \<or> columns df = [])"

text \<open>Sequencing of steps that may raise: the first exception ends the sequence.\<close>

definition bind_exn :: "exn + 'a \<Rightarrow> ('a \<Rightarrow> exn + 'b) \<Rightarrow> exn + 'b" where
  "bind_exn m f = (case m of Inl e \<Rightarrow> Inl e | Inr v \<Rightarrow> f v)"

text \<open>\<open>df.loc[label, col]\<close>: a label or a column that the table lacks raises KeyError.\<close>

definition loc :: "dataframe \<Rightarrow> string \<Rightarrow> timestamp \<Rightarrow> exn + cellval" where
  "loc df label col =
     (if label \<in> set (index df) \<and> col \<in> set (columns df) then Inr (cell df label col)
      else Inl KeyError)"

text \<open>\<open>df.loc[label, col] if label in df.index else None\<close>\<close>

definition line_item :: "dataframe \<Rightarrow> string \<Rightarrow> timestamp \<Rightarrow> exn + cellval option" where
  "line_item df label col =
     (if label \<in> set (index df) then bind_exn (loc df label col) (\<lambda>v. Inr (Some v))
      else Inr None)"

text \<open>\<open>df.loc[label, col] if df is not None and label in df.index else None\<close>\<close>

definition opt_line_item ::
  "dataframe option \<Rightarrow> string \<Rightarrow> timestamp \<Rightarrow> exn + cellval option" where
  "opt_line_item dfo label col =
     (case dfo of None \<Rightarrow> Inr None | Some df \<Rightarrow> line_item df label col)"

subsection \<open>Truth values, missing values, conversions\<close>

text \<open>
  Python's truth value: \<open>None\<close> and zero are false, every other float (NaN too) is true;
  an object has the truth value it has.
\<close>

fun truthy :: "cellval option \<Rightarrow> bool" where
  "truthy None = False"
| "truthy (Some (Num (Fin x))) = (x \<noteq> 0)"
| "truthy (Some (Num NaN)) = True"
| "truthy (Some (Num (Inf s))) = True"
| "truthy (Some (Obj t i)) = t"

text \<open>\<open>pd.notna\<close>: false on \<open>None\<close> and on NaN.\<close>

fun notna :: "cellval option \<Rightarrow> bool" where
  "notna None = False"
| "notna (Some (Num NaN)) = False"
| "notna (Some (Num (Fin x))) = True"
| "notna (Some (Num (Inf s))) = True"
| "notna (Some (Obj t i)) = True"

definition trunc :: "real \<Rightarrow> int" where
  "trunc x = (if 0 \<le> x then \<lfloor>x\<rfloor> else \<lceil>x\<rceil>)"

text \<open>
  \<open>int(x)\<close> of a float truncates towards zero and raises on NaN and on the infinities;
  of an object it is what the object gives.
\<close>

fun py_int :: "cellval \<Rightarrow> exn + int" where
  "py_int (Num (Fin x)) = Inr (trunc x)"
| "py_int (Num NaN) = Inl ValueError"
| "py_int (Num (Inf s)) = Inl OverflowError"
| "py_int (Obj t i) = i"

text \<open>\<open>int(v) if pd.notna(v) else None\<close>\<close>

fun int_if_notna :: "cellval option \<Rightarrow> exn + pyval" where
  "int_if_notna None = Inr PyNone"
| "int_if_notna (Some x) =
     (if notna (Some x) then bind_exn (py_int x) (\<lambda>i. Inr (PyInt i)) else Inr PyNone)"

text \<open>
  Float division as NumPy computes it (no exception): NaN propagates, a finite value over
  an infinity is zero, infinity over infinity is NaN. Division of a finite value by zero
  gives NaN or an infinity; the scripts guard every division by the truth value of the
  denominator, so that case is never evaluated by them. The quotient of two finite values
  is the exact one (the idealisation of finite floats as reals).
\<close>

fun fdiv :: "float \<Rightarrow> float \<Rightarrow> float" where
  "fdiv (Fin a) (Fin b) =
     (if b \<noteq> 0 then Fin (a / b) else if a = 0 then NaN else Inf (0 < a))"
| "fdiv (Fin a) (Inf s) = Fin 0"
| "fdiv (Inf s) (Fin b) = Inf (s = (0 \<le> b))"
| "fdiv (Inf s) (Inf t) = NaN"
| "fdiv NaN y = NaN"
| "fdiv x NaN = NaN"

text \<open>\<open>a / b\<close> on cells: float division, or TypeError when an operand is an object.\<close>

fun py_div :: "cellval \<Rightarrow> cellval \<Rightarrow> exn + float" where
  "py_div (Num a) (Num b) = Inr (fdiv a b)"
| "py_div a b = Inl TypeError"

text \<open>\<open>(num / den) if den and num else None\<close>\<close>

fun margin :: "cellval option \<Rightarrow> cellval option \<Rightarrow> exn + float option" where
  "margin (Some n) (Some d) =
     (if truthy (Some d) \<and> truthy (Some n) then bind_exn (py_div n d) (\<lambda>q. Inr (Some q))
      else Inr None)"
| "margin num den = Inr None"

text \<open>\<open>float(m) if pd.notna(m) else None\<close>, for the quotient \<open>m\<close> or \<open>None\<close>.\<close>

fun float_if_notna :: "float option \<Rightarrow> pyval" where
  "float_if_notna None = PyNone"
| "float_if_notna (Some x) = (if notna (Some (Num x)) then PyFloat x else PyNone)"

text \<open>\<open>float(num / den) if den and num else None\<close>\<close>

fun float_ratio :: "cellval option \<Rightarrow> cellval option \<Rightarrow> exn + pyval" where
  "float_ratio (Some n) (Some d) =
     (if truthy (Some d) \<and> truthy (Some n) then bind_exn (py_div n d) (\<lambda>q. Inr (PyFloat q))
      else Inr PyNone)"
| "float_ratio num den = Inr PyNone"

subsection \<open>Quarter label and date text\<close>

definition digit :: "nat \<Rightarrow> char" where
  "digit d = ''0123456789'' ! d"

fun str_nat :: "nat \<Rightarrow> string" where
  "str_nat n = (if n < 10 then [digit n] else str_nat (n div 10) @ [digit (n mod 10)])"

declare str_nat.simps [simp del]

definition str_int :: "int \<Rightarrow> string" where
  "str_int i = (if i < 0 then ''-'' @ str_nat (nat (- i)) else str_nat (nat i))"

text \<open>\<open>f"Q{(quarter_date.month - 1) // 3 + 1}"\<close>\<close>

definition quarter_label :: "timestamp \<Rightarrow> string" where
  "quarter_label quarter_date = ''Q'' @ str_int ((month quarter_date - 1) div 3 + 1)"

definition zero_pad :: "nat \<Rightarrow> string \<Rightarrow> string" where
  "zero_pad w s = replicate (w - length s) (CHR ''0'') @ s"

text \<open>
  \<open>quarter_date.strftime('%Y-%m-%d')\<close>: month and day in two digits, the year as it is
  (a timestamp's year has four digits).
\<close>

definition strftime :: "timestamp \<Rightarrow> string" where
  "strftime quarter_date =
     str_int (year quarter_date) @ ''-'' @
     zero_pad 2 (str_int (month quarter_date)) @ ''-'' @
     zero_pad 2 (str_int (day quarter_date))"

section \<open>The single-list script\<close>

definition companies :: "(string \<times> string) list" where
  "companies =
     [(''AAPL'', ''Apple Inc''),
      (''MSFT'', ''Microsoft Corporation''),
      (''GOOGL'', ''Alphabet Inc''),
      (''AMZN'', ''Amazon.com Inc''),
      (''TSLA'', ''Tesla Inc''),
      (''JPM'', ''JPMorgan Chase''),
      (''JNJ'', ''Johnson & Johnson''),
      (''V'', ''Visa Inc''),
      (''WMT'', ''Walmart Inc''),
      (''PG'', ''Procter & Gamble'')]"

text \<open>
  The EBITDA variable: the cell of the explicit row when the table has that row, otherwise
  the operating-income variable when it is not \<open>None\<close>, otherwise \<open>None\<close>.
\<close>

definition ebitda_value ::
  "dataframe \<Rightarrow> cellval option \<Rightarrow> timestamp \<Rightarrow> exn + cellval option" where
  "ebitda_value quarterly_income operating_income col =
     (if ''EBITDA'' \<in> set (index quarterly_income)
      then bind_exn (loc quarterly_income ''EBITDA'' col) (\<lambda>v. Inr (Some v))
      else if operating_income \<noteq> None then Inr operating_income
      else Inr None)"

text \<open>
  The inner \<open>try\<close> for one period column up to the \<open>append\<close> (lines 48 to 99): \<open>Inl e\<close> is
  the exception raised before anything is appended, \<open>Inr row\<close> the dict that is appended to
  \<open>all_data\<close>.
\<close>

definition process_quarter ::
  "string \<Rightarrow> string \<Rightarrow> dataframe \<Rightarrow> dataframe option \<Rightarrow> dataframe option \<Rightarrow> timestamp
     \<Rightarrow> exn + row" where
  "process_quarter ticker company_name quarterly_income quarterly_balance quarterly_cashflow col =
     bind_exn (line_item quarterly_income ''Total Revenue'' col) (\<lambda>revenue.
     bind_exn (line_item quarterly_income ''Gross Profit'' col) (\<lambda>gross_profit.
     bind_exn (line_item quarterly_income ''Operating Income'' col) (\<lambda>operating_income.
     bind_exn (line_item quarterly_income ''Net Income'' col) (\<lambda>net_income.
     bind_exn (ebitda_value quarterly_income operating_income col) (\<lambda>ebitda.
     bind_exn (opt_line_item quarterly_balance ''Total Assets'' col) (\<lambda>total_assets.
     bind_exn (opt_line_item quarterly_balance ''Total Debt'' col) (\<lambda>total_debt.
     bind_exn (opt_line_item quarterly_cashflow ''Operating Cash Flow'' col) (\<lambda>operating_cashflow.
     bind_exn (opt_line_item quarterly_cashflow ''Free Cash Flow'' col) (\<lambda>free_cashflow.
     bind_exn (margin gross_profit revenue) (\<lambda>gross_margin.
     bind_exn (margin operating_income revenue) (\<lambda>operating_margin.
     bind_exn (margin net_income revenue) (\<lambda>net_margin.
     bind_exn (int_if_notna revenue) (\<lambda>f_revenue.
     bind_exn (int_if_notna gross_profit) (\<lambda>f_gross_profit.
     bind_exn (int_if_notna ebitda) (\<lambda>f_ebitda.
     bind_exn (int_if_notna operating_income) (\<lambda>f_operating_income.
     bind_exn (int_if_notna net_income) (\<lambda>f_net_income.
     bind_exn (int_if_notna total_assets) (\<lambda>f_total_assets.
     bind_exn (int_if_notna total_debt) (\<lambda>f_total_debt.
     bind_exn (int_if_notna operating_cashflow) (\<lambda>f_operating_cashflow.
     bind_exn (int_if_notna free_cashflow) (\<lambda>f_free_cashflow.
     Inr [(''Company'', PyStr company_name),
          (''Ticker'', PyStr ticker),
          (''Quarter'', PyStr (quarter_label col)),
          (''Year'', PyInt (year col)),
          (''Date'', PyStr (strftime col)),
          (''Revenue'', f_revenue),
          (''Gross_Profit'', f_gross_profit),
          (''EBITDA'', f_ebitda),
          (''Operating_Income'', f_operating_income),
          (''Net_Income'', f_net_income),
          (''Total_Assets'', f_total_assets),
          (''Total_Debt'', f_total_debt),
          (''Operating_Cashflow'', f_operating_cashflow),
          (''Free_Cashflow'', f_free_cashflow),
          (''Gross_Margin'', float_if_notna gross_margin),
          (''Operating_Margin'', float_if_notna operating_margin),
          (''Net_Margin'', float_if_notna net_margin)])))))))))))))))))))))"

text \<open>
  The status line printed after the \<open>append\<close>, still inside the \<open>try\<close> (line 100):
  \<open>revenue/1e9\<close> is formatted when \<open>revenue\<close> is true, and the division raises when
  \<open>revenue\<close> is not a number.
\<close>

definition print_status :: "cellval option \<Rightarrow> exn + unit" where
  "print_status revenue =
     (case revenue of
        None \<Rightarrow> Inr ()
      | Some v \<Rightarrow>
          if truthy (Some v) then bind_exn (py_div v (Num (Fin 1000000000))) (\<lambda>billions. Inr ())
          else Inr ())"

text \<open>
  The whole inner \<open>try\<close> with its \<open>except\<close> clause, as a step on \<open>all_data\<close>: the
  exception caught, if any, and the list afterwards. An exception of the status line is
  caught after the row was appended. \<open>revenue\<close> is the variable of line 53.
\<close>

definition try_quarter ::
  "string \<Rightarrow> string \<Rightarrow> dataframe \<Rightarrow> dataframe option \<Rightarrow> dataframe option \<Rightarrow> timestamp
     \<Rightarrow> row list \<Rightarrow> exn option \<times> row list" where
  "try_quarter ticker company_name quarterly_income quarterly_balance quarterly_cashflow col
       all_data =
     (case process_quarter ticker company_name quarterly_income quarterly_balance
             quarterly_cashflow col of
        Inl e \<Rightarrow> (Some e, all_data)
      | Inr row \<Rightarrow>
          (case bind_exn (line_item quarterly_income ''Total Revenue'' col) print_status of
             Inl e \<Rightarrow> (Some e, all_data @ [row])
           | Inr u \<Rightarrow> (None, all_data @ [row])))"

subsection \<open>The loops\<close>

text \<open>
  The loop of the single-list script over the period columns: each step is the inner
  \<open>try\<close>, and the loop goes on whatever it caught (\<open>except Exception: continue\<close>).
\<close>

fun quarter_loop ::
  "(timestamp \<Rightarrow> row list \<Rightarrow> exn option \<times> row list) \<Rightarrow> timestamp list \<Rightarrow> row list
     \<Rightarrow> row list" where
  "quarter_loop step [] all_data = all_data"
| "quarter_loop step (col # cols) all_data = quarter_loop step cols (snd (step col all_data))"

text \<open>
  A loop over the period columns whose \<open>try\<close> ends with the \<open>append\<close>, as in the sector
  loops: a period whose body raises appends nothing and the loop goes on.
\<close>

fun period_loop :: "(timestamp \<Rightarrow> exn + row) \<Rightarrow> timestamp list \<Rightarrow> row list \<Rightarrow> row list" where
  "period_loop body [] all_data = all_data"
| "period_loop body (col # cols) all_data =
     (case body col of
        Inl e \<Rightarrow> period_loop body cols all_data
      | Inr row \<Rightarrow> period_loop body cols (all_data @ [row]))"

text \<open>The loop over the items of the ticker mapping.\<close>

fun ticker_loop ::
  "(string \<times> string \<Rightarrow> row list \<Rightarrow> row list) \<Rightarrow> (string \<times> string) list \<Rightarrow> row list
     \<Rightarrow> row list" where
  "ticker_loop body [] all_data = all_data"
| "ticker_loop body (item # items) all_data = ticker_loop body items (body item all_data)"

text \<open>
  The market-data provider: each of the three statements of a ticker is fetched on its
  own, and a fetch raises, returns \<open>None\<close> or returns a table.
\<close>

record provider =
  quarterly_income_stmt :: "string \<Rightarrow> exn + dataframe option"
  quarterly_balance_sheet :: "string \<Rightarrow> exn + dataframe option"
  quarterly_cashflow :: "string \<Rightarrow> exn + dataframe option"

text \<open>
  The body of the outer \<open>try\<close> for one ticker of the single-list script, with its
  \<open>except\<close> clause: a fetch that raises leaves \<open>all_data\<close> as it is.
\<close>

definition fetch_ticker :: "provider \<Rightarrow> string \<times> string \<Rightarrow> row list \<Rightarrow> row list" where
  "fetch_ticker yf item all_data =
     (case item of (ticker, company_name) \<Rightarrow>
       (case bind_exn (quarterly_income_stmt yf ticker) (\<lambda>q_income.
             bind_exn (quarterly_balance_sheet yf ticker) (\<lambda>q_balance.
             bind_exn (quarterly_cashflow yf ticker) (\<lambda>q_cashflow.
             Inr (q_income, q_balance, q_cashflow)))) of
          Inl e \<Rightarrow> all_data
        | Inr (q_income, q_balance, q_cashflow) \<Rightarrow>
           (case q_income of
              None \<Rightarrow> all_data
            | Some income \<Rightarrow>
               if empty income then all_data
               else quarter_loop
                      (try_quarter ticker company_name income q_balance q_cashflow)
                      (take 8 (columns income)) all_data)))"

definition all_data :: "provider \<Rightarrow> row list" where
  "all_data yf = ticker_loop (fetch_ticker yf) companies []"

subsection \<open>Sorting and writing\<close>

fun str_of :: "pyval option \<Rightarrow> string" where
  "str_of (Some (PyStr s)) = s"
| "str_of v = []"

fun int_of :: "pyval option \<Rightarrow> int" where
  "int_of (Some (PyInt i)) = i"
| "int_of v = 0"

text \<open>The sort key \<open>['Company', 'Year', 'Quarter']\<close> of a row.\<close>

definition sort_columns :: "row \<Rightarrow> string \<times> int \<times> string" where
  "sort_columns r =
     (str_of (map_of r ''Company''), int_of (map_of r ''Year''), str_of (map_of r ''Quarter''))"

text \<open>
  \<open>pd.DataFrame(all_data).sort_values(['Company', 'Year', 'Quarter'])\<close>: a frame made
  from no rows has no columns, and sorting it by a column raises KeyError; otherwise the
  rows are sorted by the three columns, rows with equal keys keeping their order.
\<close>

definition sort_values :: "row list \<Rightarrow> exn + row list" where
  "sort_values rows = (if rows = [] then Inl KeyError else Inr (sort_key sort_columns rows))"

text \<open>The rows that the single-list script hands to \<open>to_csv\<close>.\<close>

definition real_sp500_financials :: "provider \<Rightarrow> exn + row list" where
  "real_sp500_financials yf = sort_values (all_data yf)"


section \<open>The multi-sector script\<close>

datatype sector = Technology | Healthcare | Financial | Consumer | Energy

definition tech_companies :: "(string \<times> string) list" where
  "tech_companies =
     [(''AAPL'', ''Apple Inc''),
      (''MSFT'', ''Microsoft Corporation''),
      (''GOOGL'', ''Alphabet Inc''),
      (''META'', ''Meta Platforms''),
      (''NVDA'', ''NVIDIA Corporation''),
      (''ORCL'', ''Oracle Corporation''),
      (''ADBE'', ''Adobe Inc''),
      (''CRM'', ''Salesforce Inc''),
      (''INTC'', ''Intel Corporation''),
      (''AMD'', ''Advanced Micro Devices'')]"

definition healthcare_companies :: "(string \<times> string) list" where
  "healthcare_companies =
     [(''JNJ'', ''Johnson & Johnson''),
      (''UNH'', ''UnitedHealth Group''),
      (''PFE'', ''Pfizer Inc''),
      (''ABBV'', ''AbbVie Inc''),
      (''TMO'', ''Thermo Fisher Scientific''),
      (''ABT'', ''Abbott Laboratories''),
      (''MRK'', ''Merck & Co''),
      (''LLY'', ''Eli Lilly'')]"

definition financial_companies :: "(string \<times> string) list" where
  "financial_companies =
     [(''JPM'', ''JPMorgan Chase''),
      (''BAC'', ''Bank of America''),
      (''WFC'', ''Wells Fargo''),
      (''GS'', ''Goldman Sachs''),
      (''MS'', ''Morgan Stanley''),
      (''C'', ''Citigroup''),
      (''BLK'', ''BlackRock''),
      (''AXP'', ''American Express'')]"

definition consumer_companies :: "(string \<times> string) list" where
  "consumer_companies =
     [(''AMZN'', ''Amazon.com Inc''),
      (''WMT'', ''Walmart Inc''),
      (''HD'', ''Home Depot''),
      (''NKE'', ''Nike Inc''),
      (''MCD'', ''McDonalds Corporation''),
      (''SBUX'', ''Starbucks Corporation''),
      (''TGT'', ''Target Corporation''),
      (''COST'', ''Costco Wholesale'')]"

definition energy_companies :: "(string \<times> string) list" where
  "energy_companies =
     [(''XOM'', ''Exxon Mobil''),
      (''CVX'', ''Chevron Corporation''),
      (''COP'', ''ConocoPhillips''),
      (''SLB'', ''Schlumberger''),
      (''EOG'', ''EOG Resources'')]"

fun sector_companies :: "sector \<Rightarrow> (string \<times> string) list" where
  "sector_companies Technology = tech_companies"
| "sector_companies Healthcare = healthcare_companies"
| "sector_companies Financial = financial_companies"
| "sector_companies Consumer = consumer_companies"
| "sector_companies Energy = energy_companies"

text \<open>
  The body of the inner \<open>try\<close> of each of the five sector loops, one equation per loop:
  the line items the loop reads and the dict it appends, the values of the dict evaluated
  in the order of its keys. The \<open>append\<close> is the last statement of the \<open>try\<close>.
\<close>

fun sector_record ::
  "sector \<Rightarrow> string \<Rightarrow> string \<Rightarrow> dataframe \<Rightarrow> timestamp \<Rightarrow> exn + row" where
  "sector_record Technology ticker name income col =
     bind_exn (line_item income ''Total Revenue'' col) (\<lambda>revenue.
     bind_exn (line_item income ''Gross Profit'' col) (\<lambda>gross_profit.
     bind_exn (line_item income ''Operating Income'' col) (\<lambda>operating_income.
     bind_exn (line_item income ''Net Income'' col) (\<lambda>net_income.
     bind_exn (line_item income ''Research And Development'' col) (\<lambda>rd_expense.
     bind_exn (int_if_notna revenue) (\<lambda>f_revenue.
     bind_exn (int_if_notna gross_profit) (\<lambda>f_gross_profit.
     bind_exn (int_if_notna operating_income) (\<lambda>f_operating_income.
     bind_exn (int_if_notna net_income) (\<lambda>f_net_income.
     bind_exn (int_if_notna rd_expense) (\<lambda>f_rd_expense.
     bind_exn (float_ratio gross_profit revenue) (\<lambda>r_gross_profit.
     bind_exn (float_ratio operating_income revenue) (\<lambda>r_operating_income.
     bind_exn (float_ratio net_income revenue) (\<lambda>r_net_income.
     bind_exn (float_ratio rd_expense revenue) (\<lambda>r_rd_expense.
     Inr [(''Company'', PyStr name),
          (''Ticker'', PyStr ticker),
          (''Quarter'', PyStr (quarter_label col)),
          (''Year'', PyInt (year col)),
          (''Date'', PyStr (strftime col)),
          (''Revenue'', f_revenue),
          (''Gross_Profit'', f_gross_profit),
          (''Operating_Income'', f_operating_income),
          (''Net_Income'', f_net_income),
          (''RD_Expense'', f_rd_expense),
          (''Gross_Margin'', r_gross_profit),
          (''Operating_Margin'', r_operating_income),
          (''Net_Margin'', r_net_income),
          (''RD_Intensity'', r_rd_expense)]))))))))))))))"
| "sector_record Healthcare ticker name income col =
     bind_exn (line_item income ''Total Revenue'' col) (\<lambda>revenue.
     bind_exn (line_item income ''Gross Profit'' col) (\<lambda>gross_profit.
     bind_exn (line_item income ''Net Income'' col) (\<lambda>net_income.
     bind_exn (line_item income ''Research And Development'' col) (\<lambda>rd_expense.
     bind_exn (int_if_notna revenue) (\<lambda>f_revenue.
     bind_exn (int_if_notna gross_profit) (\<lambda>f_gross_profit.
     bind_exn (int_if_notna net_income) (\<lambda>f_net_income.
     bind_exn (int_if_notna rd_expense) (\<lambda>f_rd_expense.
     bind_exn (float_ratio gross_profit revenue) (\<lambda>r_gross_profit.
     bind_exn (float_ratio net_income revenue) (\<lambda>r_net_income.
     Inr [(''Company'', PyStr name),
          (''Ticker'', PyStr ticker),
          (''Quarter'', PyStr (quarter_label col)),
          (''Year'', PyInt (year col)),
          (''Date'', PyStr (strftime col)),
          (''Revenue'', f_revenue),
          (''Gross_Profit'', f_gross_profit),
          (''Net_Income'', f_net_income),
          (''RD_Expense'', f_rd_expense),
          (''Gross_Margin'', r_gross_profit),
          (''Net_Margin'', r_net_income)]))))))))))"
| "sector_record Financial ticker name income col =
     bind_exn (line_item income ''Total Revenue'' col) (\<lambda>revenue.
     bind_exn (line_item income ''Net Income'' col) (\<lambda>net_income.
     bind_exn (line_item income ''Operating Income'' col) (\<lambda>operating_income.
     bind_exn (int_if_notna revenue) (\<lambda>f_revenue.
     bind_exn (int_if_notna operating_income) (\<lambda>f_operating_income.
     bind_exn (int_if_notna net_income) (\<lambda>f_net_income.
     bind_exn (float_ratio operating_income revenue) (\<lambda>r_operating_income.
     bind_exn (float_ratio net_income revenue) (\<lambda>r_net_income.
     Inr [(''Company'', PyStr name),
          (''Ticker'', PyStr ticker),
          (''Quarter'', PyStr (quarter_label col)),
          (''Year'', PyInt (year col)),
          (''Date'', PyStr (strftime col)),
          (''Revenue'', f_revenue),
          (''Operating_Income'', f_operating_income),
          (''Net_Income'', f_net_income),
          (''Operating_Margin'', r_operating_income),
          (''Net_Margin'', r_net_income)]))))))))"
| "sector_record Consumer ticker name income col =
     bind_exn (line_item income ''Total Revenue'' col) (\<lambda>revenue.
     bind_exn (line_item income ''Gross Profit'' col) (\<lambda>gross_profit.
     bind_exn (line_item income ''Operating Income'' col) (\<lambda>operating_income.
     bind_exn (line_item income ''Net Income'' col) (\<lambda>net_income.
     bind_exn (int_if_notna revenue) (\<lambda>f_revenue.
     bind_exn (int_if_notna gross_profit) (\<lambda>f_gross_profit.
     bind_exn (int_if_notna operating_income) (\<lambda>f_operating_income.
     bind_exn (int_if_notna net_income) (\<lambda>f_net_income.
     bind_exn (float_ratio gross_profit revenue) (\<lambda>r_gross_profit.
     bind_exn (float_ratio operating_income revenue) (\<lambda>r_operating_income.
     bind_exn (float_ratio net_income revenue) (\<lambda>r_net_income.
     Inr [(''Company'', PyStr name),
          (''Ticker'', PyStr ticker),
          (''Quarter'', PyStr (quarter_label col)),
          (''Year'', PyInt (year col)),
          (''Date'', PyStr (strftime col)),
          (''Revenue'', f_revenue),
          (''Gross_Profit'', f_gross_profit),
          (''Operating_Income'', f_operating_income),
          (''Net_Income'', f_net_income),
          (''Gross_Margin'', r_gross_profit),
          (''Operating_Margin'', r_operating_income),
          (''Net_Margin'', r_net_income)])))))))))))"
| "sector_record Energy ticker name income col =
     bind_exn (line_item income ''Total Revenue'' col) (\<lambda>revenue.
     bind_exn (line_item income ''Gross Profit'' col) (\<lambda>gross_profit.
     bind_exn (line_item income ''Net Income'' col) (\<lambda>net_income.
     bind_exn (int_if_notna revenue) (\<lambda>f_revenue.
     bind_exn (int_if_notna gross_profit) (\<lambda>f_gross_profit.
     bind_exn (int_if_notna net_income) (\<lambda>f_net_income.
     bind_exn (float_ratio gross_profit revenue) (\<lambda>r_gross_profit.
     bind_exn (float_ratio net_income revenue) (\<lambda>r_net_income.
     Inr [(''Company'', PyStr name),
          (''Ticker'', PyStr ticker),
          (''Quarter'', PyStr (quarter_label col)),
          (''Year'', PyInt (year col)),
          (''Date'', PyStr (strftime col)),
          (''Revenue'', f_revenue),
          (''Gross_Profit'', f_gross_profit),
          (''Net_Income'', f_net_income),
          (''Gross_Margin'', r_gross_profit),
          (''Net_Margin'', r_net_income)]))))))))"

text \<open>
  The statements a sector loop fetches before it looks at the income statement: the
  technology loop reads all three, the other four only the income statement.
\<close>

fun sector_fetch :: "provider \<Rightarrow> sector \<Rightarrow> string \<Rightarrow> exn + dataframe option" where
  "sector_fetch yf Technology ticker =
     bind_exn (quarterly_income_stmt yf ticker) (\<lambda>income.
     bind_exn (quarterly_balance_sheet yf ticker) (\<lambda>balance.
     bind_exn (quarterly_cashflow yf ticker) (\<lambda>cashflow.
     Inr income)))"
| "sector_fetch yf s ticker = quarterly_income_stmt yf ticker"

text \<open>The body of the outer \<open>try\<close> of a sector loop, with its \<open>except\<close> clause.\<close>

definition sector_ticker ::
  "provider \<Rightarrow> sector \<Rightarrow> string \<times> string \<Rightarrow> row list \<Rightarrow> row list" where
  "sector_ticker yf s item sector_rows =
     (case item of (ticker, name) \<Rightarrow>
       (case sector_fetch yf s ticker of
          Inl e \<Rightarrow> sector_rows
        | Inr None \<Rightarrow> sector_rows
        | Inr (Some income) \<Rightarrow>
            if empty income then sector_rows
            else period_loop (sector_record s ticker name income)
                   (take 6 (columns income)) sector_rows))"

text \<open>
  The list a sector loop accumulates (\<open>tech_data\<close>, \<open>healthcare_data\<close>,
  \<open>financial_data\<close>, \<open>consumer_data\<close>, \<open>energy_data\<close>); the script hands it to
  \<open>to_csv\<close> as it is.
\<close>

definition sector_data :: "provider \<Rightarrow> sector \<Rightarrow> row list" where
  "sector_data yf s = ticker_loop (sector_ticker yf s) (sector_companies s) []"

definition sector_financials :: "provider \<Rightarrow> sector \<Rightarrow> row list" where
  "sector_financials yf s = sector_data yf s"


section \<open>The document synthesizer\<close>

text \<open>
  The blocks that \<open>create_pe_deal_memo_pdf\<close> hands to the renderer. A style carries the
  attributes the script sets; what it inherits from the renderer's sample style sheet is
  named by \<open>parent\<close>. Text is kept as UTF-8 bytes, so the bullet sign is three characters.
\<close>

datatype alignment = TA_LEFT | TA_CENTER

record paragraph_style =
  style_name :: string
  parent :: string
  fontSize :: "nat option"
  textColor :: "string option"
  spaceAfter :: "nat option"
  spaceBefore :: "nat option"
  align :: "alignment option"
  bold :: "bool option"

datatype flowable = Paragraph string paragraph_style | Spacer real real | PageBreak

definition title_style :: paragraph_style where
  "title_style =
     \<lparr>style_name = ''CustomTitle'', parent = ''Heading1'', fontSize = Some 18,
      textColor = Some ''darkblue'', spaceAfter = Some 30, spaceBefore = None,
      align = Some TA_CENTER, bold = Some True\<rparr>"

definition heading_style :: paragraph_style where
  "heading_style =
     \<lparr>style_name = ''CustomHeading'', parent = ''Heading2'', fontSize = Some 14,
      textColor = Some ''darkred'', spaceAfter = Some 12, spaceBefore = Some 12,
      align = None, bold = Some True\<rparr>"

definition normal_style :: paragraph_style where
  "normal_style =
     \<lparr>style_name = ''BodyText'', parent = ''BodyText'', fontSize = None,
      textColor = None, spaceAfter = None, spaceBefore = None,
      align = Some TA_LEFT, bold = None\<rparr>"

definition inch :: real where
  "inch = 72"

definition bullet :: string where
  "bullet = [CHR 0xE2, CHR 0x80, CHR 0xA2]"

text \<open>The arguments of the \<open>elements.append\<close> statements, in the order of the statements.\<close>

definition appended_blocks :: "flowable list" where
  "appended_blocks =
     [Paragraph (''CONFIDENTIAL - DEAL MEMORANDUM'') title_style,
      Spacer 1 (0.2 * inch),
      Paragraph (''EXECUTIVE SUMMARY'') heading_style,
      Paragraph (''Titan Capital Partners proposes to acquire 100% of ACME Manufacturing Corp for an\<newline>'' @
           ''        enterprise value of $450 million. ACME is a leading manufacturer of industrial\<newline>'' @
           ''        components with strong market position and consistent cash flows.'') normal_style,
      Spacer 1 (0.2 * inch),
      Paragraph (''KEY METRICS'') heading_style,
      Paragraph (bullet @ '' Enterprise Value: $450M'') normal_style,
      Paragraph (bullet @ '' Equity Investment: $180M (40%)'') normal_style,
      Paragraph (bullet @ '' Debt Financing: $270M (60%)'') normal_style,
      Paragraph (bullet @ '' Entry Multiple: 8.5x LTM EBITDA'') normal_style,
      Paragraph (bullet @ '' Current EBITDA: $53M'') normal_style,
      Spacer 1 (0.2 * inch),
      Paragraph (''FINANCIAL PROJECTIONS'') heading_style,
      Paragraph (''Year 1: Revenue $340M, EBITDA $72M (22.4% margin)'') normal_style,
      Paragraph (''Year 2: Revenue $385M, EBITDA $85M (22.1% margin)'') normal_style,
      Paragraph (''Year 3: Revenue $440M, EBITDA $101M (23.0% margin)'') normal_style,
      Paragraph (''Year 4: Revenue $510M, EBITDA $122M (23.9% margin)'') normal_style,
      Paragraph (''Year 5: Revenue $595M, EBITDA $149M (25.0% margin)'') normal_style,
      Spacer 1 (0.2 * inch),
      Paragraph (''EXIT STRATEGY'') heading_style,
      Paragraph (''Target exit multiple: 8.5x EBITDA'') normal_style,
      Paragraph (''Projected exit value: $1,267M (at Year 5 EBITDA)'') normal_style,
      Paragraph (''Expected return: 3.5x MOIC, 28% IRR'') normal_style,
      Spacer 1 (0.2 * inch),
      Paragraph (''RISK FACTORS'') heading_style,
      Paragraph (bullet @ '' Customer concentration (top 3 customers = 45% revenue)<br/>\<newline>'' @
           ''        '' @ bullet @ '' Competitive pressure from low-cost overseas manufacturers<br/>\<newline>'' @
           ''        '' @ bullet @ '' Raw material price volatility (steel, aluminum)<br/>\<newline>'' @
           ''        '' @ bullet @ '' Dependency on automotive sector (35% of revenue)<br/>\<newline>'' @
           ''        '' @ bullet @ '' Key personnel retention post-acquisition'') normal_style,
      Spacer 1 (0.2 * inch),
      Paragraph (''VALUE CREATION PLAN'') heading_style,
      Paragraph (''1. Operational Excellence'') normal_style,
      Paragraph (''   - Implement lean manufacturing (target: 15% OPEX reduction)'') normal_style,
      Paragraph (''   - Upgrade ERP system for better inventory management'') normal_style,
      Paragraph (''   - Consolidate 3 facilities into 2 modern plants'') normal_style,
      Spacer 1 (0.1 * inch),
      Paragraph (''2. Revenue Growth'') normal_style,
      Paragraph (''   - Expand into aerospace sector (high-margin, stable)'') normal_style,
      Paragraph (''   - Launch e-commerce channel for smaller customers'') normal_style,
      Paragraph (''   - Geographic expansion: Southeast US and Mexico'') normal_style,
      Spacer 1 (0.1 * inch),
      Paragraph (''3. M&A Strategy'') normal_style,
      Paragraph (''   - Acquire 2-3 complementary manufacturers'') normal_style,
      Paragraph (''   - Budget: $50-75M for bolt-on acquisitions'') normal_style,
      PageBreak,
      Paragraph (''MANAGEMENT TEAM'') heading_style,
      Paragraph (''CEO: John Smith (retained, 15 years experience)<br/>\<newline>'' @
           ''        CFO: Sarah Johnson (new hire, ex-Big 4)<br/>\<newline>'' @
           ''        COO: Mike Williams (promoted internally)<br/>\<newline>'' @
           ''        VP Sales: Lisa Brown (retained, 20 years)<br/>\<newline>'' @
           ''        VP Operations: David Lee (new hire, lean manufacturing expert)'') normal_style,
      Spacer 1 (0.2 * inch),
      Paragraph (''DUE DILIGENCE SUMMARY'') heading_style,
      Paragraph (''Financial: Clean audit, no material issues'') normal_style,
      Paragraph (''Legal: One minor ongoing lawsuit, well-reserved'') normal_style,
      Paragraph (''Environmental: All facilities compliant, no contamination'') normal_style,
      Paragraph (''Commercial: Strong customer relationships, no major churn risk'') normal_style,
      Paragraph (''IT: Legacy systems, modernization needed (budgeted)'') normal_style]"

text \<open>\<open>elements.append(block)\<close>\<close>

definition append_block :: "flowable list \<Rightarrow> flowable \<Rightarrow> flowable list" where
  "append_block elements block = elements @ [block]"

text \<open>
  \<open>create_pe_deal_memo_pdf\<close>: \<open>elements\<close> starts empty, every statement appends its
  block, and the list is handed to the renderer's \<open>build\<close>.
\<close>

definition create_pe_deal_memo_pdf :: "(flowable list \<Rightarrow> 'doc) \<Rightarrow> 'doc" where
  "create_pe_deal_memo_pdf build = build (foldl append_block [] appended_blocks)"

section \<open>Properties of the records\<close>

text \<open>
  The source value of a line item: the cell of the row with that label, \<open>None\<close> when the
  table is missing or has no such row.
\<close>

definition source_value :: "dataframe \<Rightarrow> string \<Rightarrow> timestamp \<Rightarrow> cellval option" where
  "source_value df label col = (if label \<in> set (index df) then Some (cell df label col) else None)"

definition opt_source_value ::
  "dataframe option \<Rightarrow> string \<Rightarrow> timestamp \<Rightarrow> cellval option" where
  "opt_source_value dfo label col =
     (case dfo of None \<Rightarrow> None | Some df \<Rightarrow> source_value df label col)"

text \<open>A field is absent when it is null for the table library: \<open>None\<close> or NaN.\<close>

fun isna :: "pyval \<Rightarrow> bool" where
  "isna PyNone = True"
| "isna (PyFloat NaN) = True"
| "isna v = False"

text \<open>
  A ratio field is right for a numerator and a denominator when it is absent or the
  quotient of the two, and absent whenever the denominator is absent or zero.
\<close>

fun ratio_ok :: "cellval option \<Rightarrow> cellval option \<Rightarrow> pyval option \<Rightarrow> bool" where
  "ratio_ok (Some (Num (Fin n))) (Some (Num (Fin d))) (Some v) =
     (if d = 0 then isna v else isna v \<or> v = PyFloat (Fin (n / d)))"
| "ratio_ok num den (Some v) = isna v"
| "ratio_ok num den None = False"

text \<open>
  The same with absent taken as \<open>None\<close> only: the field is \<open>None\<close> or the quotient of the
  two, and \<open>None\<close> whenever the denominator is missing, NaN or zero; a NaN is not accepted.
\<close>

fun ratio_none_or_quotient :: "cellval option \<Rightarrow> cellval option \<Rightarrow> pyval option \<Rightarrow> bool" where
  "ratio_none_or_quotient (Some (Num (Fin n))) (Some (Num (Fin d))) (Some v) =
     (if d = 0 then v = PyNone else v = PyNone \<or> v = PyFloat (Fin (n / d)))"
| "ratio_none_or_quotient num den (Some v) = (v = PyNone)"
| "ratio_none_or_quotient num den None = False"

text \<open>\<open>i\<close> is \<open>x\<close> with its fractional part cut off.\<close>

definition truncation_of :: "real \<Rightarrow> int \<Rightarrow> bool" where
  "truncation_of x i = (\<bar>real_of_int i\<bar> \<le> \<bar>x\<bar> \<and> \<bar>x - real_of_int i\<bar> < 1)"

text \<open>
  A raw field is right for a source value when it is \<open>None\<close> for a missing or NaN source
  and the truncated integer for a finite one; for a source that is an object, when it is
  the integer that \<open>int()\<close> makes of the object.
\<close>

fun raw_ok :: "cellval option \<Rightarrow> pyval option \<Rightarrow> bool" where
  "raw_ok (Some (Num (Fin x))) (Some (PyInt i)) = truncation_of x i"
| "raw_ok (Some (Num NaN)) (Some PyNone) = True"
| "raw_ok None (Some PyNone) = True"
| "raw_ok (Some (Obj t (Inr j))) (Some (PyInt i)) = (i = j)"
| "raw_ok src field = False"

text \<open>The source of the EBITDA field as the script chooses it: by the presence of the row.\<close>

definition ebitda_source :: "dataframe \<Rightarrow> timestamp \<Rightarrow> cellval option" where
  "ebitda_source quarterly_income col =
     (if ''EBITDA'' \<in> set (index quarterly_income) then source_value quarterly_income ''EBITDA'' col
      else source_value quarterly_income ''Operating Income'' col)"

text \<open>
  The source of the EBITDA field under the reading that goes by the presence of the
  value: the explicit value when it is present, else the operating income.
\<close>

definition ebitda_source_by_value :: "dataframe \<Rightarrow> timestamp \<Rightarrow> cellval option" where
  "ebitda_source_by_value quarterly_income col =
     (if notna (source_value quarterly_income ''EBITDA'' col)
      then source_value quarterly_income ''EBITDA'' col
      else source_value quarterly_income ''Operating Income'' col)"

text \<open>Per sector: the raw fields and the ratio fields with the row label each is read from.\<close>

fun sector_raw_items :: "sector \<Rightarrow> (string \<times> string) list" where
  "sector_raw_items Technology =
     [(''Revenue'', ''Total Revenue''), (''Gross_Profit'', ''Gross Profit''),
      (''Operating_Income'', ''Operating Income''), (''Net_Income'', ''Net Income''),
      (''RD_Expense'', ''Research And Development'')]"
| "sector_raw_items Healthcare =
     [(''Revenue'', ''Total Revenue''), (''Gross_Profit'', ''Gross Profit''),
      (''Net_Income'', ''Net Income''), (''RD_Expense'', ''Research And Development'')]"
| "sector_raw_items Financial =
     [(''Revenue'', ''Total Revenue''), (''Operating_Income'', ''Operating Income''),
      (''Net_Income'', ''Net Income'')]"
| "sector_raw_items Consumer =
     [(''Revenue'', ''Total Revenue''), (''Gross_Profit'', ''Gross Profit''),
      (''Operating_Income'', ''Operating Income''), (''Net_Income'', ''Net Income'')]"
| "sector_raw_items Energy =
     [(''Revenue'', ''Total Revenue''), (''Gross_Profit'', ''Gross Profit''),
      (''Net_Income'', ''Net Income'')]"

fun sector_ratio_items :: "sector \<Rightarrow> (string \<times> string) list" where
  "sector_ratio_items Technology =
     [(''Gross_Margin'', ''Gross Profit''), (''Operating_Margin'', ''Operating Income''),
      (''Net_Margin'', ''Net Income''), (''RD_Intensity'', ''Research And Development'')]"
| "sector_ratio_items Healthcare =
     [(''Gross_Margin'', ''Gross Profit''), (''Net_Margin'', ''Net Income'')]"
| "sector_ratio_items Financial =
     [(''Operating_Margin'', ''Operating Income''), (''Net_Margin'', ''Net Income'')]"
| "sector_ratio_items Consumer =
     [(''Gross_Margin'', ''Gross Profit''), (''Operating_Margin'', ''Operating Income''),
      (''Net_Margin'', ''Net Income'')]"
| "sector_ratio_items Energy =
     [(''Gross_Margin'', ''Gross Profit''), (''Net_Margin'', ''Net Income'')]"

definition identity_columns :: "string list" where
  "identity_columns = [''Company'', ''Ticker'', ''Quarter'', ''Year'', ''Date'']"

text \<open>The columns of a sector's records: identity, raw fields, ratio fields.\<close>

definition sector_columns :: "sector \<Rightarrow> string list" where
  "sector_columns s =
     identity_columns @ map fst (sector_raw_items s) @ map fst (sector_ratio_items s)"

definition balance_and_cashflow_columns :: "string list" where
  "balance_and_cashflow_columns =
     [''EBITDA'', ''Total_Assets'', ''Total_Debt'', ''Operating_Cashflow'', ''Free_Cashflow'']"

text \<open>Columns that the records of a sector do not have, beside those five.\<close>

fun sector_absent_columns :: "sector \<Rightarrow> string list" where
  "sector_absent_columns Technology = []"
| "sector_absent_columns Healthcare = [''Operating_Income'', ''Operating_Margin'']"
| "sector_absent_columns Financial =
     [''Gross_Profit'', ''Gross_Margin'', ''RD_Expense'', ''RD_Intensity'']"
| "sector_absent_columns Consumer = []"
| "sector_absent_columns Energy = [''Operating_Income'']"

text \<open>
  The records of a window of periods, in the order of the periods: the record of each
  period whose body returns one.
\<close>

definition recorded :: "(timestamp \<Rightarrow> exn + row) \<Rightarrow> timestamp list \<Rightarrow> row list" where
  "recorded body cols =
     concat (map (\<lambda>col. case body col of Inl e \<Rightarrow> [] | Inr row \<Rightarrow> [row]) cols)"

text \<open>
  The records one ticker contributes to the output of its sector: none when the fetch
  raises or the income statement is \<open>None\<close> or empty, otherwise those of the first six
  period columns in the order the provider gives them.
\<close>

definition sector_ticker_rows :: "provider \<Rightarrow> sector \<Rightarrow> string \<times> string \<Rightarrow> row list" where
  "sector_ticker_rows yf s item =
     (case item of (ticker, name) \<Rightarrow>
       (case sector_fetch yf s ticker of
          Inl e \<Rightarrow> []
        | Inr None \<Rightarrow> []
        | Inr (Some income) \<Rightarrow>
            if empty income then []
            else recorded (sector_record s ticker name income) (take 6 (columns income))))"

text \<open>A ticker has no income-statement data: the fetch returns \<open>None\<close> or an empty table.\<close>

definition no_income_data :: "provider \<Rightarrow> string \<Rightarrow> bool" where
  "no_income_data yf ticker =
     (case quarterly_income_stmt yf ticker of
        Inl e \<Rightarrow> False
      | Inr None \<Rightarrow> True
      | Inr (Some income) \<Rightarrow> empty income)"

section \<open>A sample provider\<close>

definition q2_2024 :: timestamp where
  "q2_2024 = \<lparr>year = 2024, month = 6, day = 30\<rparr>"

definition q1_2024 :: timestamp where
  "q1_2024 = \<lparr>year = 2024, month = 3, day = 31\<rparr>"

text \<open>
  Two periods, newest first. Revenue 200, the other income lines 50; the explicit EBITDA
  row is there but its cells are NaN.
\<close>

definition sample_income :: dataframe where
  "sample_income =
     \<lparr>index = [''Total Revenue'', ''Gross Profit'', ''Operating Income'', ''Net Income'', ''EBITDA''],
      columns = [q2_2024, q1_2024],
      cell = (\<lambda>label col.
                if label = ''Total Revenue'' then Num (Fin 200)
                else if label = ''EBITDA'' then Num NaN
                else Num (Fin 50))\<rparr>"

text \<open>A balance sheet that has only the newer of the two periods.\<close>

definition sample_balance :: dataframe where
  "sample_balance =
     \<lparr>index = [''Total Assets''], columns = [q2_2024], cell = (\<lambda>label col. Num (Fin 1000))\<rparr>"

text \<open>An income statement whose revenue is infinite in the older period.\<close>

definition overflow_income :: dataframe where
  "overflow_income =
     \<lparr>index = [''Total Revenue''],
      columns = [q2_2024, q1_2024],
      cell = (\<lambda>label col. if col = q1_2024 then Num (Inf True) else Num (Fin 200))\<rparr>"

text \<open>
  An income statement without an EBITDA row, with one period and a fractional operating
  income.
\<close>

definition fallback_income :: dataframe where
  "fallback_income =
     \<lparr>index = [''Total Revenue'', ''Operating Income''],
      columns = [q2_2024],
      cell = (\<lambda>label col.
                if label = ''Total Revenue'' then Num (Fin 200) else Num (Fin (151 / 2)))\<rparr>"

definition fallback_sample_row :: row where
  "fallback_sample_row =
     [(''Company'', PyStr ''Visa Inc''),
      (''Ticker'', PyStr ''V''),
      (''Quarter'', PyStr ''Q2''),
      (''Year'', PyInt 2024),
      (''Date'', PyStr ''2024-06-30''),
      (''Revenue'', PyInt 200),
      (''Gross_Profit'', PyNone),
      (''EBITDA'', PyInt 75),
      (''Operating_Income'', PyInt 75),
      (''Net_Income'', PyNone),
      (''Total_Assets'', PyInt 1000),
      (''Total_Debt'', PyNone),
      (''Operating_Cashflow'', PyNone),
      (''Free_Cashflow'', PyNone),
      (''Gross_Margin'', PyNone),
      (''Operating_Margin'', PyFloat (Fin (151 / 400))),
      (''Net_Margin'', PyNone)]"

text \<open>An income statement whose revenue is NaN while its gross profit is 50.\<close>

definition nan_revenue_income :: dataframe where
  "nan_revenue_income =
     \<lparr>index = [''Total Revenue'', ''Gross Profit''],
      columns = [q2_2024],
      cell = (\<lambda>label col. if label = ''Total Revenue'' then Num NaN else Num (Fin 50))\<rparr>"

definition energy_nan_row :: row where
  "energy_nan_row =
     [(''Company'', PyStr ''Exxon Mobil''),
      (''Ticker'', PyStr ''XOM''),
      (''Quarter'', PyStr ''Q2''),
      (''Year'', PyInt 2024),
      (''Date'', PyStr ''2024-06-30''),
      (''Revenue'', PyNone),
      (''Gross_Profit'', PyInt 50),
      (''Net_Income'', PyNone),
      (''Gross_Margin'', PyFloat NaN),
      (''Net_Margin'', PyNone)]"

definition single_nan_row :: row where
  "single_nan_row =
     [(''Company'', PyStr ''Exxon Mobil''),
      (''Ticker'', PyStr ''XOM''),
      (''Quarter'', PyStr ''Q2''),
      (''Year'', PyInt 2024),
      (''Date'', PyStr ''2024-06-30''),
      (''Revenue'', PyNone),
      (''Gross_Profit'', PyInt 50),
      (''EBITDA'', PyNone),
      (''Operating_Income'', PyNone),
      (''Net_Income'', PyNone),
      (''Total_Assets'', PyNone),
      (''Total_Debt'', PyNone),
      (''Operating_Cashflow'', PyNone),
      (''Free_Cashflow'', PyNone),
      (''Gross_Margin'', PyNone),
      (''Operating_Margin'', PyNone),
      (''Net_Margin'', PyNone)]"

text \<open>
  An income statement with the revenue row only, whose cells are the text \<open>'200'\<close>: true,
  and 200 for \<open>int()\<close>.
\<close>

definition text_income :: dataframe where
  "text_income =
     \<lparr>index = [''Total Revenue''],
      columns = [q2_2024],
      cell = (\<lambda>label col. Obj True (Inr 200))\<rparr>"

definition text_revenue_row :: row where
  "text_revenue_row =
     [(''Company'', PyStr ''Apple Inc''),
      (''Ticker'', PyStr ''AAPL''),
      (''Quarter'', PyStr ''Q2''),
      (''Year'', PyInt 2024),
      (''Date'', PyStr ''2024-06-30''),
      (''Revenue'', PyInt 200),
      (''Gross_Profit'', PyNone),
      (''EBITDA'', PyNone),
      (''Operating_Income'', PyNone),
      (''Net_Income'', PyNone),
      (''Total_Assets'', PyNone),
      (''Total_Debt'', PyNone),
      (''Operating_Cashflow'', PyNone),
      (''Free_Cashflow'', PyNone),
      (''Gross_Margin'', PyNone),
      (''Operating_Margin'', PyNone),
      (''Net_Margin'', PyNone)]"

definition text_sector_row :: row where
  "text_sector_row =
     [(''Company'', PyStr ''Exxon Mobil''),
      (''Ticker'', PyStr ''XOM''),
      (''Quarter'', PyStr ''Q2''),
      (''Year'', PyInt 2024),
      (''Date'', PyStr ''2024-06-30''),
      (''Revenue'', PyInt 200),
      (''Gross_Profit'', PyNone),
      (''Net_Income'', PyNone),
      (''Gross_Margin'', PyNone),
      (''Net_Margin'', PyNone)]"

text \<open>A table with no rows and no periods.\<close>

definition empty_income :: dataframe where
  "empty_income = \<lparr>index = [], columns = [], cell = (\<lambda>label col. Num NaN)\<rparr>"

text \<open>
  The provider has the sample income statement for two tickers, an empty table for a
  third and nothing for the others; it has no balance sheets and no cash-flow statements.
\<close>

definition sample_yf :: provider where
  "sample_yf =
     \<lparr>quarterly_income_stmt =
        (\<lambda>ticker. if ticker = ''AAPL'' \<or> ticker = ''JNJ'' then Inr (Some sample_income)
                  else if ticker = ''MSFT'' then Inr (Some empty_income)
                  else Inr None),
      quarterly_balance_sheet = (\<lambda>ticker. Inr None),
      quarterly_cashflow = (\<lambda>ticker. Inr None)\<rparr>"

text \<open>The records expected for the newer period of the sample income statement.\<close>

definition single_sample_row :: row where
  "single_sample_row =
     [(''Company'', PyStr ''Apple Inc''),
      (''Ticker'', PyStr ''AAPL''),
      (''Quarter'', PyStr ''Q2''),
      (''Year'', PyInt 2024),
      (''Date'', PyStr ''2024-06-30''),
      (''Revenue'', PyInt 200),
      (''Gross_Profit'', PyInt 50),
      (''EBITDA'', PyNone),
      (''Operating_Income'', PyInt 50),
      (''Net_Income'', PyInt 50),
      (''Total_Assets'', PyNone),
      (''Total_Debt'', PyNone),
      (''Operating_Cashflow'', PyNone),
      (''Free_Cashflow'', PyNone),
      (''Gross_Margin'', PyFloat (Fin (1 / 4))),
      (''Operating_Margin'', PyFloat (Fin (1 / 4))),
      (''Net_Margin'', PyFloat (Fin (1 / 4)))]"

text \<open>
  The record of the single-list script for a company with the sample income statement and
  no other statement, by quarter label and date text.
\<close>

definition single_row :: "string \<Rightarrow> string \<Rightarrow> string \<Rightarrow> string \<Rightarrow> row" where
  "single_row company ticker quarter date =
     [(''Company'', PyStr company),
      (''Ticker'', PyStr ticker),
      (''Quarter'', PyStr quarter),
      (''Year'', PyInt 2024),
      (''Date'', PyStr date),
      (''Revenue'', PyInt 200),
      (''Gross_Profit'', PyInt 50),
      (''EBITDA'', PyNone),
      (''Operating_Income'', PyInt 50),
      (''Net_Income'', PyInt 50),
      (''Total_Assets'', PyNone),
      (''Total_Debt'', PyNone),
      (''Operating_Cashflow'', PyNone),
      (''Free_Cashflow'', PyNone),
      (''Gross_Margin'', PyFloat (Fin (1 / 4))),
      (''Operating_Margin'', PyFloat (Fin (1 / 4))),
      (''Net_Margin'', PyFloat (Fin (1 / 4)))]"

definition tech_sample_row :: "string \<Rightarrow> row" where
  "tech_sample_row quarter =
     [(''Company'', PyStr ''Apple Inc''),
      (''Ticker'', PyStr ''AAPL''),
      (''Quarter'', PyStr quarter),
      (''Year'', PyInt 2024),
      (''Date'', PyStr (if quarter = ''Q2'' then ''2024-06-30'' else ''2024-03-31'')),
      (''Revenue'', PyInt 200),
      (''Gross_Profit'', PyInt 50),
      (''Operating_Income'', PyInt 50),
      (''Net_Income'', PyInt 50),
      (''RD_Expense'', PyNone),
      (''Gross_Margin'', PyFloat (Fin (1 / 4))),
      (''Operating_Margin'', PyFloat (Fin (1 / 4))),
      (''Net_Margin'', PyFloat (Fin (1 / 4))),
      (''RD_Intensity'', PyNone)]"

definition healthcare_sample_row :: "string \<Rightarrow> row" where
  "healthcare_sample_row quarter =
     [(''Company'', PyStr ''Johnson & Johnson''),
      (''Ticker'', PyStr ''JNJ''),
      (''Quarter'', PyStr quarter),
      (''Year'', PyInt 2024),
      (''Date'', PyStr (if quarter = ''Q2'' then ''2024-06-30'' else ''2024-03-31'')),
      (''Revenue'', PyInt 200),
      (''Gross_Profit'', PyInt 50),
      (''Net_Income'', PyInt 50),
      (''RD_Expense'', PyNone),
      (''Gross_Margin'', PyFloat (Fin (1 / 4))),
      (''Net_Margin'', PyFloat (Fin (1 / 4)))]"

fun is_page_break :: "flowable \<Rightarrow> bool" where
  "is_page_break PageBreak = True"
| "is_page_break block = False"

section \<open>Lemmas about the conversions\<close>

lemma bind_exn_Inr_iff: "bind_exn m f = Inr r \<longleftrightarrow> (\<exists>v. m = Inr v \<and> f v = Inr r)"
  by (cases m) (simp_all add: bind_exn_def)

lemma bind_exn_Inr [simp]: "bind_exn (Inr v) f = f v"
  by (simp add: bind_exn_def)

lemma bind_exn_Inl [simp]: "bind_exn (Inl e) f = Inl e"
  by (simp add: bind_exn_def)

lemma line_item_Inr: "line_item df label col = Inr v \<Longrightarrow> v = source_value df label col"
  by (auto simp: line_item_def loc_def source_value_def split: if_splits)

lemma opt_line_item_Inr:
  "opt_line_item dfo label col = Inr v \<Longrightarrow> v = opt_source_value dfo label col"
  by (cases dfo) (auto simp: opt_line_item_def opt_source_value_def dest: line_item_Inr)

lemma ebitda_value_Inr:
  assumes "ebitda_value inc (source_value inc ''Operating Income'' col) col = Inr v"
  shows "v = ebitda_source inc col"
  using assms
  by (auto simp: ebitda_value_def ebitda_source_def loc_def source_value_def split: if_splits)

lemma trunc_truncation: "truncation_of x (trunc x)"
proof (cases "0 \<le> x")
  case True
  then show ?thesis
    unfolding truncation_of_def trunc_def by simp linarith
next
  case False
  then show ?thesis
    unfolding truncation_of_def trunc_def by simp linarith
qed

lemma truncation_unique: "truncation_of x i \<Longrightarrow> i = trunc x"
  unfolding truncation_of_def trunc_def
  by (cases "0 \<le> x") (simp_all, linarith+)

lemma int_if_notna_Inr: "int_if_notna v = Inr f \<Longrightarrow> raw_ok v (Some f)"
proof (cases v)
  case None
  assume "int_if_notna v = Inr f"
  with None show ?thesis by simp
next
  case (Some x)
  assume conv: "int_if_notna v = Inr f"
  show ?thesis
  proof (cases x)
    case (Num y)
    with conv Some show ?thesis
      by (cases y) (auto simp: trunc_truncation)
  next
    case (Obj t i)
    with conv Some show ?thesis
      by (cases i) auto
  qed
qed

lemma raw_ok_cases:
  assumes "raw_ok v f"
  obtains "v = None" | "v = Some (Num NaN)" | x where "v = Some (Num (Fin x))"
    | t j where "v = Some (Obj t (Inr j))"
  using assms by (cases "(v, f)" rule: raw_ok.cases) auto

lemma raw_ok_not_nan: "raw_ok v (Some f) \<Longrightarrow> f \<noteq> PyFloat NaN"
  by (cases "(v, Some f)" rule: raw_ok.cases) auto

lemma float_ratio_ok:
  assumes "float_ratio num den = Inr v" and "raw_ok num fn" and "raw_ok den fd"
  shows "ratio_ok num den (Some v)"
  using assms(2)
proof (cases rule: raw_ok_cases)
  case 1
  with assms(1) show ?thesis by auto
next
  case 2
  with assms(3,1) show ?thesis by (cases rule: raw_ok_cases) (auto split: if_splits)
next
  case (3 x)
  with assms(3,1) show ?thesis by (cases rule: raw_ok_cases) (auto split: if_splits)
next
  case (4 t j)
  with assms(3,1) show ?thesis by (cases rule: raw_ok_cases) (auto split: if_splits)
qed

lemma margin_none_or_quotient:
  assumes "margin num den = Inr m" and "raw_ok num fn" and "raw_ok den fd"
  shows "ratio_none_or_quotient num den (Some (float_if_notna m))"
  using assms(2)
proof (cases rule: raw_ok_cases)
  case 1
  with assms(1) show ?thesis by auto
next
  case 2
  with assms(3,1) show ?thesis by (cases rule: raw_ok_cases) (auto split: if_splits)
next
  case (3 x)
  with assms(3,1) show ?thesis by (cases rule: raw_ok_cases) (auto split: if_splits)
next
  case (4 t j)
  with assms(3,1) show ?thesis by (cases rule: raw_ok_cases) (auto split: if_splits)
qed


lemma none_or_quotient_not_nan:
  "ratio_none_or_quotient num den (Some v) \<Longrightarrow> v \<noteq> PyFloat NaN"
  by (induction num den "Some v" rule: ratio_none_or_quotient.induct) (auto split: if_splits)

text \<open>
  On finite operands both ratio expressions give the quotient exactly when neither operand
  is zero; a zero numerator gives \<open>None\<close> like a zero denominator does.
\<close>

lemma float_ratio_finite:
  "float_ratio (Some (Num (Fin n))) (Some (Num (Fin d))) =
     Inr (if d \<noteq> 0 \<and> n \<noteq> 0 then PyFloat (Fin (n / d)) else PyNone)"
  "map_sum id float_if_notna (margin (Some (Num (Fin n))) (Some (Num (Fin d)))) =
     Inr (if d \<noteq> 0 \<and> n \<noteq> 0 then PyFloat (Fin (n / d)) else PyNone)"
  by simp_all

text \<open>
  A NaN operand next to a non-zero one: the expression of the sector loops gives NaN, the
  one of the single-list script \<open>None\<close>.
\<close>

lemma ratio_of_nan:
  "float_ratio (Some (Num (Fin 50))) (Some (Num NaN)) = Inr (PyFloat NaN)"
  "map_sum id float_if_notna (margin (Some (Num (Fin 50))) (Some (Num NaN))) = Inr PyNone"
  by simp_all

lemma process_quarter_Inr:
  assumes "process_quarter ticker name inc bal cf col = Inr row"
  shows "map fst row =
           [''Company'', ''Ticker'', ''Quarter'', ''Year'', ''Date'', ''Revenue'', ''Gross_Profit'',
            ''EBITDA'', ''Operating_Income'', ''Net_Income'', ''Total_Assets'', ''Total_Debt'',
            ''Operating_Cashflow'', ''Free_Cashflow'', ''Gross_Margin'', ''Operating_Margin'',
            ''Net_Margin'']"
    and "map_of row ''Company'' = Some (PyStr name)"
    and "map_of row ''Quarter'' = Some (PyStr (quarter_label col))"
    and "map_of row ''Year'' = Some (PyInt (year col))"
    and "raw_ok (source_value inc ''Total Revenue'' col) (map_of row ''Revenue'')"
    and "raw_ok (source_value inc ''Gross Profit'' col) (map_of row ''Gross_Profit'')"
    and "raw_ok (ebitda_source inc col) (map_of row ''EBITDA'')"
    and "raw_ok (source_value inc ''Operating Income'' col) (map_of row ''Operating_Income'')"
    and "raw_ok (source_value inc ''Net Income'' col) (map_of row ''Net_Income'')"
    and "raw_ok (opt_source_value bal ''Total Assets'' col) (map_of row ''Total_Assets'')"
    and "raw_ok (opt_source_value bal ''Total Debt'' col) (map_of row ''Total_Debt'')"
    and "raw_ok (opt_source_value cf ''Operating Cash Flow'' col)
           (map_of row ''Operating_Cashflow'')"
    and "raw_ok (opt_source_value cf ''Free Cash Flow'' col) (map_of row ''Free_Cashflow'')"
    and "ratio_none_or_quotient (source_value inc ''Gross Profit'' col)
           (source_value inc ''Total Revenue'' col) (map_of row ''Gross_Margin'')"
    and "ratio_none_or_quotient (source_value inc ''Operating Income'' col)
           (source_value inc ''Total Revenue'' col) (map_of row ''Operating_Margin'')"
    and "ratio_none_or_quotient (source_value inc ''Net Income'' col)
           (source_value inc ''Total Revenue'' col) (map_of row ''Net_Margin'')"
  using assms unfolding process_quarter_def
  by (auto simp: bind_exn_Inr_iff
      dest!: line_item_Inr opt_line_item_Inr int_if_notna_Inr ebitda_value_Inr
      intro: margin_none_or_quotient)

lemma sector_record_Inr:
  assumes "sector_record s ticker name inc col = Inr row"
  shows "map fst row = sector_columns s"
    and "list_all (\<lambda>(f, l). raw_ok (source_value inc l col) (map_of row f)) (sector_raw_items s)"
    and "list_all (\<lambda>(f, l). ratio_ok (source_value inc l col)
           (source_value inc ''Total Revenue'' col) (map_of row f)) (sector_ratio_items s)"
    and "map_of row ''Quarter'' = Some (PyStr (quarter_label col))"
  using assms
  by (cases s;
      auto simp: bind_exn_Inr_iff sector_columns_def identity_columns_def
        dest!: line_item_Inr int_if_notna_Inr intro: float_ratio_ok)+

section \<open>Lemmas about the loops\<close>

lemma str_nat_digit: "n < 10 \<Longrightarrow> str_nat n = [digit n]"
  by (simp add: str_nat.simps)

lemma digits: "digit (Suc 0) = CHR ''1''" "digit 2 = CHR ''2''" "digit 3 = CHR ''3''" "digit 4 = CHR ''4''"
  by (simp_all add: digit_def)

text \<open>
  What the inner \<open>try\<close> of the single-list script leaves in \<open>all_data\<close> depends only on
  the part before the \<open>append\<close>: an exception of the status line changes nothing.
\<close>

lemma try_quarter_rows:
  "snd (try_quarter ticker name inc bal cf col rows) =
     (case process_quarter ticker name inc bal cf col of
        Inl e \<Rightarrow> rows
      | Inr row \<Rightarrow> rows @ [row])"
  by (simp add: try_quarter_def split: sum.splits)

lemma quarter_loop_try:
  "quarter_loop (try_quarter ticker name inc bal cf) cols rows =
     period_loop (process_quarter ticker name inc bal cf) cols rows"
  by (induction cols arbitrary: rows) (simp_all add: try_quarter_rows split: sum.splits)

lemma period_loop_append: "period_loop body cols acc = acc @ period_loop body cols []"
proof (induction cols arbitrary: acc)
  case Nil
  show ?case by simp
next
  case (Cons col cols)
  show ?case
  proof (cases "body col")
    case (Inl e)
    then show ?thesis using Cons.IH [of acc] by simp
  next
    case (Inr r)
    then show ?thesis using Cons.IH [of "acc @ [r]"] Cons.IH [of "[r]"] by simp
  qed
qed

lemma period_loop_recorded: "period_loop body cols acc = acc @ recorded body cols"
proof (induction cols arbitrary: acc)
  case Nil
  show ?case by (simp add: recorded_def)
next
  case (Cons col cols)
  show ?case
  proof (cases "body col")
    case (Inl e)
    then show ?thesis using Cons.IH [of acc] by (simp add: recorded_def)
  next
    case (Inr r)
    then show ?thesis using Cons.IH [of "acc @ [r]"] by (simp add: recorded_def)
  qed
qed

lemma recorded_append: "recorded body (xs @ ys) = recorded body xs @ recorded body ys"
  by (simp add: recorded_def)

lemma recorded_Cons:
  "recorded body (col # cols) =
     (case body col of Inl e \<Rightarrow> [] | Inr row \<Rightarrow> [row]) @ recorded body cols"
  by (simp add: recorded_def)

lemma period_loop_length: "length (period_loop body cols acc) \<le> length acc + length cols"
proof (induction cols arbitrary: acc)
  case Nil
  show ?case by simp
next
  case (Cons col cols)
  show ?case
  proof (cases "body col")
    case (Inl e)
    then show ?thesis using Cons.IH [of acc] by simp
  next
    case (Inr r)
    then show ?thesis using Cons.IH [of "acc @ [r]"] by simp
  qed
qed

lemma period_loop_set:
  "r \<in> set (period_loop body cols acc) \<Longrightarrow> r \<in> set acc \<or> (\<exists>col \<in> set cols. body col = Inr r)"
proof (induction cols arbitrary: acc)
  case Nil
  then show ?case by simp
next
  case (Cons col cols)
  show ?case
  proof (cases "body col")
    case (Inl e)
    then show ?thesis using Cons.IH [of acc] Cons.prems by auto
  next
    case (Inr r')
    then show ?thesis using Cons.IH [of "acc @ [r']"] Cons.prems by auto
  qed
qed

lemma ticker_loop_length:
  assumes "\<And>item acc. length (body item acc) \<le> length acc + k"
  shows "length (ticker_loop body items acc) \<le> length acc + length items * k"
proof (induction items arbitrary: acc)
  case Nil
  show ?case by simp
next
  case (Cons item items)
  have "length (ticker_loop body items (body item acc)) \<le> length (body item acc) + length items * k"
    by (rule Cons.IH)
  also have "\<dots> \<le> (length acc + k) + length items * k"
    using assms [of item acc] by simp
  finally show ?case by simp
qed

lemma ticker_loop_set:
  assumes step: "\<And>item acc r. r \<in> set (body item acc) \<Longrightarrow> r \<in> set acc \<or> P r"
  shows "r \<in> set (ticker_loop body items acc) \<Longrightarrow> r \<in> set acc \<or> P r"
proof (induction items arbitrary: acc)
  case Nil
  then show ?case by simp
next
  case (Cons item items)
  from Cons.prems have "r \<in> set (ticker_loop body items (body item acc))"
    by simp
  then have "r \<in> set (body item acc) \<or> P r"
    by (rule Cons.IH)
  then show ?case
    using step [of r item acc] by blast
qed

lemma ticker_loop_concat:
  assumes step: "\<And>item acc. body item acc = acc @ body item []"
  shows "ticker_loop body items acc = acc @ concat (map (\<lambda>item. body item []) items)"
proof (induction items arbitrary: acc)
  case Nil
  show ?case by simp
next
  case (Cons item items)
  have "ticker_loop body (item # items) acc = ticker_loop body items (body item acc)"
    by simp
  also have "\<dots> = body item acc @ concat (map (\<lambda>item. body item []) items)"
    by (rule Cons.IH)
  also have "\<dots> = acc @ body item [] @ concat (map (\<lambda>item. body item []) items)"
    using step [of item acc] by simp
  finally show ?case by simp
qed

text \<open>The ticker step of the single-list script in terms of the rows appended.\<close>

lemma fetch_ticker_alt:
  "fetch_ticker yf item rows =
     (case item of (ticker, company_name) \<Rightarrow>
       (case bind_exn (quarterly_income_stmt yf ticker) (\<lambda>q_income.
             bind_exn (quarterly_balance_sheet yf ticker) (\<lambda>q_balance.
             bind_exn (quarterly_cashflow yf ticker) (\<lambda>q_cashflow.
             Inr (q_income, q_balance, q_cashflow)))) of
          Inl e \<Rightarrow> rows
        | Inr (q_income, q_balance, q_cashflow) \<Rightarrow>
           (case q_income of
              None \<Rightarrow> rows
            | Some income \<Rightarrow>
               if empty income then rows
               else period_loop
                      (process_quarter ticker company_name income q_balance q_cashflow)
                      (take 8 (columns income)) rows)))"
  by (simp add: fetch_ticker_def quarter_loop_try split: prod.splits sum.splits option.splits)

lemma fetch_ticker_shape:
  "fetch_ticker yf (ticker, name) acc = acc \<or>
   (\<exists>inc bal cf cols. length cols \<le> 8 \<and> fetch_ticker yf (ticker, name) acc =
      period_loop (process_quarter ticker name inc bal cf) cols acc)"
proof (cases "bind_exn (quarterly_income_stmt yf ticker) (\<lambda>q_income.
             bind_exn (quarterly_balance_sheet yf ticker) (\<lambda>q_balance.
             bind_exn (quarterly_cashflow yf ticker) (\<lambda>q_cashflow.
             Inr (q_income, q_balance, q_cashflow))))")
  case (Inl e)
  then show ?thesis by (simp add: fetch_ticker_alt)
next
  case (Inr fetched)
  obtain q_income q_balance q_cashflow where f: "fetched = (q_income, q_balance, q_cashflow)"
    by (cases fetched)
  show ?thesis
  proof (cases q_income)
    case None
    with Inr f show ?thesis by (simp add: fetch_ticker_alt)
  next
    case (Some inc)
    show ?thesis
    proof (cases "empty inc")
      case True
      with Inr f Some show ?thesis by (simp add: fetch_ticker_alt)
    next
      case False
      have "length (take 8 (columns inc)) \<le> 8" by simp
      moreover have "fetch_ticker yf (ticker, name) acc =
        period_loop (process_quarter ticker name inc q_balance q_cashflow)
          (take 8 (columns inc)) acc"
        using Inr f Some False by (simp add: fetch_ticker_alt)
      ultimately show ?thesis by blast
    qed
  qed
qed

lemma fetch_ticker_append: "fetch_ticker yf item acc = acc @ fetch_ticker yf item []"
proof -
  obtain ticker name where item: "item = (ticker, name)"
    by (cases item)
  have loop: "period_loop body cols acc = acc @ period_loop body cols []" for body cols
    by (rule period_loop_append)
  show ?thesis
    unfolding item fetch_ticker_alt
    by (simp add: loop [symmetric] split: sum.splits option.splits prod.splits)
qed

lemma fetch_ticker_length: "length (fetch_ticker yf item acc) \<le> length acc + 8"
proof -
  obtain ticker name where item: "item = (ticker, name)"
    by (cases item)
  from fetch_ticker_shape [of yf ticker name acc] show ?thesis
  proof
    assume "fetch_ticker yf (ticker, name) acc = acc"
    with item show ?thesis by simp
  next
    assume "\<exists>inc bal cf cols. length cols \<le> 8 \<and> fetch_ticker yf (ticker, name) acc =
      period_loop (process_quarter ticker name inc bal cf) cols acc"
    then obtain inc bal cf cols where c: "length cols \<le> 8"
      and f: "fetch_ticker yf (ticker, name) acc =
         period_loop (process_quarter ticker name inc bal cf) cols acc"
      by blast
    show ?thesis
      using period_loop_length [of "process_quarter ticker name inc bal cf" cols acc] c f item
      by simp
  qed
qed

lemma fetch_ticker_set:
  assumes "r \<in> set (fetch_ticker yf item acc)"
  shows "r \<in> set acc \<or>
    (\<exists>ticker name inc bal cf col. process_quarter ticker name inc bal cf col = Inr r)"
proof -
  obtain ticker name where item: "item = (ticker, name)"
    by (cases item)
  from fetch_ticker_shape [of yf ticker name acc] show ?thesis
  proof
    assume "fetch_ticker yf (ticker, name) acc = acc"
    with assms item show ?thesis by simp
  next
    assume "\<exists>inc bal cf cols. length cols \<le> 8 \<and> fetch_ticker yf (ticker, name) acc =
      period_loop (process_quarter ticker name inc bal cf) cols acc"
    then obtain inc bal cf cols where
      "fetch_ticker yf (ticker, name) acc =
         period_loop (process_quarter ticker name inc bal cf) cols acc"
      by blast
    with assms item
    have "r \<in> set (period_loop (process_quarter ticker name inc bal cf) cols acc)"
      by simp
    from period_loop_set [OF this] show ?thesis by blast
  qed
qed

lemma all_data_produced:
  assumes "r \<in> set (all_data yf)"
  shows "\<exists>ticker name inc bal cf col. process_quarter ticker name inc bal cf col = Inr r"
proof -
  from assms have "r \<in> set (ticker_loop (fetch_ticker yf) companies [])"
    by (simp only: all_data_def)
  then have "r \<in> set [] \<or>
      (\<exists>ticker name inc bal cf col. process_quarter ticker name inc bal cf col = Inr r)"
    by (rule ticker_loop_set [rotated]) (rule fetch_ticker_set)
  then show ?thesis by simp
qed

text \<open>The ticker step of a sector loop appends the records of the ticker.\<close>

lemma sector_ticker_appends:
  "sector_ticker yf s item acc = acc @ sector_ticker_rows yf s item"
proof -
  obtain ticker name where item: "item = (ticker, name)"
    by (cases item)
  show ?thesis
    unfolding item sector_ticker_def sector_ticker_rows_def
    by (simp add: period_loop_recorded split: sum.splits option.splits)
qed

lemma sector_ticker_length: "length (sector_ticker yf s item acc) \<le> length acc + 6"
proof -
  have "length (period_loop body (take 6 cols) acc) \<le> length acc + 6" for body cols
    using period_loop_length [of body "take 6 cols" acc] by simp
  then show ?thesis
    by (simp add: sector_ticker_def split: prod.splits sum.splits option.splits)
qed

lemma fetch_ticker_no_income:
  "no_income_data yf ticker \<Longrightarrow> fetch_ticker yf (ticker, name) acc = acc"
  by (auto simp: no_income_data_def fetch_ticker_alt bind_exn_def
      split: sum.splits option.splits)

lemma sector_ticker_no_income:
  "no_income_data yf ticker \<Longrightarrow> sector_ticker yf s (ticker, name) acc = acc"
  by (cases s) (auto simp: no_income_data_def sector_ticker_def bind_exn_def
      split: sum.splits option.splits)

lemma sector_ticker_set:
  assumes "r \<in> set (sector_ticker yf s item acc)"
  shows "r \<in> set acc \<or> (\<exists>ticker name inc col. sector_record s ticker name inc col = Inr r)"
proof -
  obtain ticker name where item: "item = (ticker, name)"
    by (cases item)
  show ?thesis
  proof (cases "sector_fetch yf s ticker")
    case (Inl e)
    with assms item show ?thesis by (simp add: sector_ticker_def)
  next
    case (Inr fetched)
    show ?thesis
    proof (cases fetched)
      case None
      with assms item Inr show ?thesis by (simp add: sector_ticker_def)
    next
      case (Some inc)
      show ?thesis
      proof (cases "empty inc")
        case True
        with assms item Inr Some show ?thesis by (simp add: sector_ticker_def)
      next
        case False
        with assms item Inr Some
        have "r \<in> set (period_loop (sector_record s ticker name inc) (take 6 (columns inc)) acc)"
          by (simp add: sector_ticker_def)
        from period_loop_set [OF this] show ?thesis by blast
      qed
    qed
  qed
qed

lemma sector_data_produced:
  assumes "r \<in> set (sector_data yf s)"
  shows "\<exists>ticker name inc col. sector_record s ticker name inc col = Inr r"
proof -
  from assms have "r \<in> set (ticker_loop (sector_ticker yf s) (sector_companies s) [])"
    by (simp only: sector_data_def)
  then have "r \<in> set [] \<or> (\<exists>ticker name inc col. sector_record s ticker name inc col = Inr r)"
    by (rule ticker_loop_set [rotated]) (rule sector_ticker_set)
  then show ?thesis by simp
qed

lemma sort_columns_single:
  assumes "process_quarter ticker name inc bal cf col = Inr row"
  shows "sort_columns row = (name, year col, quarter_label col)"
  using process_quarter_Inr(2,3,4) [OF assms] by (simp add: sort_columns_def)

lemma sort_columns_sector:
  assumes "sector_record s ticker name inc col = Inr row"
  shows "sort_columns row = (name, year col, quarter_label col)"
  using assms
  by (cases s; auto simp: bind_exn_Inr_iff sort_columns_def)

lemma foldl_append_block: "foldl append_block elements blocks = elements @ blocks"
  by (induction blocks arbitrary: elements) (simp_all add: append_block_def)

lemma one_page_break: "filter is_page_break appended_blocks = [PageBreak]"
  unfolding appended_blocks_def by simp

section \<open>The scripts on the sample provider\<close>

lemma quarter_label_q2: "quarter_label q2_2024 = ''Q2''"
  by (simp add: quarter_label_def q2_2024_def str_int_def str_nat_digit digits)

lemma quarter_label_q1: "quarter_label q1_2024 = ''Q1''"
  by (simp add: quarter_label_def q1_2024_def str_int_def str_nat_digit digits)

lemma strftime_q2: "strftime q2_2024 = ''2024-06-30''"
  by (simp add: strftime_def q2_2024_def str_int_def str_nat.simps zero_pad_def digit_def)

lemma strftime_q1: "strftime q1_2024 = ''2024-03-31''"
  by (simp add: strftime_def q1_2024_def str_int_def str_nat.simps zero_pad_def digit_def)

lemma year_sample: "year q2_2024 = 2024" "year q1_2024 = 2024"
  by (simp_all add: q2_2024_def q1_2024_def)

lemma q1_neq_q2: "q1_2024 \<noteq> q2_2024" "q2_2024 \<noteq> q1_2024"
  by (simp_all add: q2_2024_def q1_2024_def)

lemma trunc_numeral: "trunc (numeral n) = numeral n"
  by (simp add: trunc_def)

lemmas sample_simps =
  quarter_label_q2 quarter_label_q1 strftime_q2 strftime_q1 year_sample q1_neq_q2 trunc_numeral
  line_item_def opt_line_item_def loc_def

lemma process_quarter_sample:
  "process_quarter ''AAPL'' ''Apple Inc'' sample_income None None q2_2024 = Inr single_sample_row"
  by (simp add: process_quarter_def ebitda_value_def sample_income_def single_sample_row_def
      sample_simps)

lemma process_quarter_keyerror:
  "process_quarter ''AAPL'' ''Apple Inc'' sample_income (Some sample_balance) None q1_2024 =
     Inl KeyError"
  by (simp add: process_quarter_def ebitda_value_def sample_income_def sample_balance_def
      sample_simps)

lemma process_quarter_fallback:
  "process_quarter ''V'' ''Visa Inc'' fallback_income (Some sample_balance) None q2_2024 =
     Inr fallback_sample_row"
  by (simp add: process_quarter_def ebitda_value_def fallback_income_def sample_balance_def
      fallback_sample_row_def sample_simps trunc_def)

lemma process_quarter_single_row:
  "process_quarter ticker name sample_income None None q2_2024 =
     Inr (single_row name ticker ''Q2'' ''2024-06-30'')"
  "process_quarter ticker name sample_income None None q1_2024 =
     Inr (single_row name ticker ''Q1'' ''2024-03-31'')"
  by (simp_all add: process_quarter_def ebitda_value_def sample_income_def single_row_def
      sample_simps)

lemma process_quarter_nan:
  "process_quarter ''XOM'' ''Exxon Mobil'' nan_revenue_income None None q2_2024 =
     Inr single_nan_row"
  by (simp add: process_quarter_def ebitda_value_def nan_revenue_income_def single_nan_row_def
      sample_simps)

lemma process_quarter_text:
  "process_quarter ''AAPL'' ''Apple Inc'' text_income None None q2_2024 = Inr text_revenue_row"
  by (simp add: process_quarter_def ebitda_value_def text_income_def text_revenue_row_def
      sample_simps)

lemma print_status_text:
  "bind_exn (line_item text_income ''Total Revenue'' q2_2024) print_status = Inl TypeError"
  by (simp add: print_status_def text_income_def sample_simps)

lemma print_status_sample:
  "bind_exn (line_item sample_income ''Total Revenue'' q2_2024) print_status = Inr ()"
  by (simp add: print_status_def sample_income_def sample_simps)

lemma tech_record_sample:
  "sector_record Technology ''AAPL'' ''Apple Inc'' sample_income q2_2024 = Inr (tech_sample_row ''Q2'')"
  "sector_record Technology ''AAPL'' ''Apple Inc'' sample_income q1_2024 = Inr (tech_sample_row ''Q1'')"
  by (simp_all add: sample_income_def tech_sample_row_def sample_simps)

lemma healthcare_record_sample:
  "sector_record Healthcare ''JNJ'' ''Johnson & Johnson'' sample_income q2_2024 =
     Inr (healthcare_sample_row ''Q2'')"
  "sector_record Healthcare ''JNJ'' ''Johnson & Johnson'' sample_income q1_2024 =
     Inr (healthcare_sample_row ''Q1'')"
  by (simp_all add: sample_income_def healthcare_sample_row_def sample_simps)

lemma sector_record_overflow:
  "sector_record Healthcare ''JNJ'' ''Johnson & Johnson'' overflow_income q1_2024 =
     Inl OverflowError"
  "sector_record Healthcare ''JNJ'' ''Johnson & Johnson'' overflow_income q2_2024 =
     Inr [(''Company'', PyStr ''Johnson & Johnson''),
          (''Ticker'', PyStr ''JNJ''),
          (''Quarter'', PyStr ''Q2''),
          (''Year'', PyInt 2024),
          (''Date'', PyStr ''2024-06-30''),
          (''Revenue'', PyInt 200),
          (''Gross_Profit'', PyNone),
          (''Net_Income'', PyNone),
          (''RD_Expense'', PyNone),
          (''Gross_Margin'', PyNone),
          (''Net_Margin'', PyNone)]"
  by (simp_all add: overflow_income_def sample_simps)

lemma sector_record_nan:
  "sector_record Energy ''XOM'' ''Exxon Mobil'' nan_revenue_income q2_2024 = Inr energy_nan_row"
  by (simp add: nan_revenue_income_def energy_nan_row_def sample_simps)

lemma sector_record_text:
  "sector_record Energy ''XOM'' ''Exxon Mobil'' text_income q2_2024 = Inr text_sector_row"
  by (simp add: text_income_def text_sector_row_def sample_simps)

lemma sample_income_columns:
  "\<not> empty sample_income"
  "take 6 (columns sample_income) = [q2_2024, q1_2024]"
  "take 8 (columns sample_income) = [q2_2024, q1_2024]"
  "empty empty_income"
  by (simp_all add: sample_income_def empty_income_def empty_def)

lemma tech_data_sample:
  "sector_data sample_yf Technology = [tech_sample_row ''Q2'', tech_sample_row ''Q1'']"
  by (simp add: sector_data_def tech_companies_def sector_ticker_def sample_yf_def
      sample_income_columns tech_record_sample del: sector_record.simps)

lemma healthcare_data_sample:
  "sector_data sample_yf Healthcare = [healthcare_sample_row ''Q2'', healthcare_sample_row ''Q1'']"
  by (simp add: sector_data_def healthcare_companies_def sector_ticker_def sample_yf_def
      sample_income_columns healthcare_record_sample del: sector_record.simps)

lemma tech_keys_sample:
  "map sort_columns (sector_data sample_yf Technology) =
     [(''Apple Inc'', 2024, ''Q2''), (''Apple Inc'', 2024, ''Q1'')]"
  by (simp add: tech_data_sample tech_sample_row_def sort_columns_def)

lemma all_data_sample:
  "all_data sample_yf =
     [single_row ''Apple Inc'' ''AAPL'' ''Q2'' ''2024-06-30'',
      single_row ''Apple Inc'' ''AAPL'' ''Q1'' ''2024-03-31'',
      single_row ''Johnson & Johnson'' ''JNJ'' ''Q2'' ''2024-06-30'',
      single_row ''Johnson & Johnson'' ''JNJ'' ''Q1'' ''2024-03-31'']"
  by (simp add: all_data_def companies_def fetch_ticker_alt sample_yf_def
      sample_income_columns process_quarter_single_row)

lemma sort_columns_single_row:
  "sort_columns (single_row company ticker quarter date) = (company, 2024, quarter)"
  by (simp add: sort_columns_def single_row_def)

lemma real_sp500_financials_sample:
  "real_sp500_financials sample_yf =
     Inr [single_row ''Apple Inc'' ''AAPL'' ''Q1'' ''2024-03-31'',
          single_row ''Apple Inc'' ''AAPL'' ''Q2'' ''2024-06-30'',
          single_row ''Johnson & Johnson'' ''JNJ'' ''Q1'' ''2024-03-31'',
          single_row ''Johnson & Johnson'' ''JNJ'' ''Q2'' ''2024-06-30'']"
  by (simp add: real_sp500_financials_def sort_values_def all_data_sample
      sort_columns_single_row)

section \<open>The claims\<close>

text \<open>
  Claim C4. For a period whose calendar month is between 1 and 12, the quarter label is
  \<open>Q1\<close> for January to March, \<open>Q2\<close> for April to June, \<open>Q3\<close> for July to September and
  \<open>Q4\<close> for October to December, whatever the year and the day; and that label is the
  \<open>Quarter\<close> field of every record either script produces for the period.
\<close>

theorem quarter_label_exact:
  assumes "1 \<le> month col" and "month col \<le> 12"
  shows "quarter_label col =
           (if month col \<le> 3 then ''Q1'' else if month col \<le> 6 then ''Q2''
            else if month col \<le> 9 then ''Q3'' else ''Q4'') \<and>
         (process_quarter ticker name inc bal cf col = Inr row \<longrightarrow>
            map_of row ''Quarter'' = Some (PyStr (quarter_label col))) \<and>
         (sector_record s ticker name inc col = Inr srow \<longrightarrow>
            map_of srow ''Quarter'' = Some (PyStr (quarter_label col)))"
proof (intro conjI impI)
  have "month col = 1 \<or> month col = 2 \<or> month col = 3 \<or> month col = 4 \<or> month col = 5
          \<or> month col = 6 \<or> month col = 7 \<or> month col = 8 \<or> month col = 9 \<or> month col = 10
          \<or> month col = 11 \<or> month col = 12"
    using assms by arith
  then show "quarter_label col =
           (if month col \<le> 3 then ''Q1'' else if month col \<le> 6 then ''Q2''
            else if month col \<le> 9 then ''Q3'' else ''Q4'')"
    by (elim disjE) (simp_all add: quarter_label_def str_int_def str_nat_digit digits)
next
  assume "process_quarter ticker name inc bal cf col = Inr row"
  then show "map_of row ''Quarter'' = Some (PyStr (quarter_label col))"
    by (rule process_quarter_Inr(3))
next
  assume "sector_record s ticker name inc col = Inr srow"
  then show "map_of srow ''Quarter'' = Some (PyStr (quarter_label col))"
    by (rule sector_record_Inr(4))
qed

theorem quarter_label_exact_witness:
  "1 \<le> month q2_2024 \<and> month q2_2024 \<le> 12 \<and> month q2_2024 = 6 \<and>
   quarter_label q2_2024 = ''Q2'' \<and>
   process_quarter ''AAPL'' ''Apple Inc'' sample_income None None q2_2024 = Inr single_sample_row \<and>
   map_of single_sample_row ''Quarter'' = Some (PyStr ''Q2'') \<and>
   sector_record Technology ''AAPL'' ''Apple Inc'' sample_income q2_2024 =
     Inr (tech_sample_row ''Q2'') \<and>
   map_of (tech_sample_row ''Q2'') ''Quarter'' = Some (PyStr ''Q2'')"
proof -
  have m: "1 \<le> month q2_2024" "month q2_2024 \<le> 12" "month q2_2024 = 6"
    by (simp_all add: q2_2024_def)
  show ?thesis
    using quarter_label_exact [OF m(1) m(2), of "''AAPL''" "''Apple Inc''" sample_income None None
        single_sample_row Technology "tech_sample_row ''Q2''"]
      m process_quarter_sample tech_record_sample(1)
    by simp
qed

text \<open>
  Claim C5. Whatever the provider returns, the single-list script accumulates at most
  eight records per ticker of its mapping and every sector loop at most six per ticker
  of the sector's mapping.
\<close>

theorem record_count_bounded:
  "length (all_data yf) \<le> length companies * 8 \<and>
   length (sector_data yf s) \<le> length (sector_companies s) * 6"
proof
  show "length (all_data yf) \<le> length companies * 8"
    unfolding all_data_def
    using ticker_loop_length [of "fetch_ticker yf" 8 companies "[]"] fetch_ticker_length
    by simp
  show "length (sector_data yf s) \<le> length (sector_companies s) * 6"
    unfolding sector_data_def
    using ticker_loop_length [of "sector_ticker yf s" 6 "sector_companies s" "[]"]
      sector_ticker_length
    by simp
qed

text \<open>
  Claim C6. A ticker whose income statement is \<open>None\<close> or empty adds no record: the
  body of the ticker loop returns the accumulated list unchanged (no exception leaves
  it), and the run goes on: wherever the ticker stands in the mapping, the result of the
  loop is the rows accumulated so far, followed by the records of the tickers before it
  and then by the records of the tickers after it. This holds in the single-list script
  and in every sector loop.
\<close>

theorem no_income_ticker_skipped:
  assumes "no_income_data yf ticker"
  shows "fetch_ticker yf (ticker, name) rows = rows \<and>
         ticker_loop (fetch_ticker yf) ((ticker, name) # after) rows =
           ticker_loop (fetch_ticker yf) after rows \<and>
         ticker_loop (fetch_ticker yf) (before @ (ticker, name) # after) rows =
           rows @ concat (map (\<lambda>item. fetch_ticker yf item []) before) @
             concat (map (\<lambda>item. fetch_ticker yf item []) after) \<and>
         sector_ticker yf s (ticker, name) rows = rows \<and>
         ticker_loop (sector_ticker yf s) ((ticker, name) # after) rows =
           ticker_loop (sector_ticker yf s) after rows \<and>
         ticker_loop (sector_ticker yf s) (before @ (ticker, name) # after) rows =
           rows @ concat (map (sector_ticker_rows yf s) before) @
             concat (map (sector_ticker_rows yf s) after)"
proof -
  have single: "fetch_ticker yf (ticker, name) acc = acc" for acc
    using assms by (rule fetch_ticker_no_income)
  have sector: "sector_ticker yf s (ticker, name) acc = acc" for acc
    using assms by (rule sector_ticker_no_income)
  have "ticker_loop (fetch_ticker yf) (before @ (ticker, name) # after) rows =
      rows @ concat (map (\<lambda>item. fetch_ticker yf item []) (before @ (ticker, name) # after))"
    by (rule ticker_loop_concat) (rule fetch_ticker_append)
  then have single_run: "ticker_loop (fetch_ticker yf) (before @ (ticker, name) # after) rows =
      rows @ concat (map (\<lambda>item. fetch_ticker yf item []) before) @
        concat (map (\<lambda>item. fetch_ticker yf item []) after)"
    by (simp add: single)
  have rows_of: "sector_ticker yf s item [] = sector_ticker_rows yf s item" for item
    using sector_ticker_appends [of yf s item "[]"] by simp
  have "ticker_loop (sector_ticker yf s) (before @ (ticker, name) # after) rows =
      rows @ concat (map (\<lambda>item. sector_ticker yf s item []) (before @ (ticker, name) # after))"
    by (rule ticker_loop_concat) (simp add: sector_ticker_appends)
  then have sector_run: "ticker_loop (sector_ticker yf s) (before @ (ticker, name) # after) rows =
      rows @ concat (map (sector_ticker_rows yf s) before) @
        concat (map (sector_ticker_rows yf s) after)"
    using sector [of "[]"] by (simp add: rows_of)
  show ?thesis
    using single sector single_run sector_run by simp
qed

theorem no_income_ticker_skipped_witness:
  "no_income_data sample_yf ''MSFT'' \<and>
   fetch_ticker sample_yf (''MSFT'', ''Microsoft Corporation'') [single_sample_row] =
     [single_sample_row] \<and>
   ticker_loop (fetch_ticker sample_yf)
       ([(''AAPL'', ''Apple Inc'')] @ (''MSFT'', ''Microsoft Corporation'') #
          [(''JNJ'', ''Johnson & Johnson'')]) [] =
     [single_row ''Apple Inc'' ''AAPL'' ''Q2'' ''2024-06-30'',
      single_row ''Apple Inc'' ''AAPL'' ''Q1'' ''2024-03-31'',
      single_row ''Johnson & Johnson'' ''JNJ'' ''Q2'' ''2024-06-30'',
      single_row ''Johnson & Johnson'' ''JNJ'' ''Q1'' ''2024-03-31''] \<and>
   sector_ticker sample_yf Healthcare (''MSFT'', ''Microsoft Corporation'')
       [healthcare_sample_row ''Q2''] =
     [healthcare_sample_row ''Q2''] \<and>
   ticker_loop (sector_ticker sample_yf Healthcare)
       ([] @ (''MSFT'', ''Microsoft Corporation'') # [(''JNJ'', ''Johnson & Johnson'')]) [] =
     [healthcare_sample_row ''Q2'', healthcare_sample_row ''Q1'']"
proof -
  have h: "no_income_data sample_yf ''MSFT''"
    by (simp add: no_income_data_def sample_yf_def sample_income_columns)
  have aapl: "fetch_ticker sample_yf (''AAPL'', ''Apple Inc'') [] =
      [single_row ''Apple Inc'' ''AAPL'' ''Q2'' ''2024-06-30'',
       single_row ''Apple Inc'' ''AAPL'' ''Q1'' ''2024-03-31'']"
    by (simp add: fetch_ticker_alt sample_yf_def sample_income_columns
        process_quarter_single_row)
  have jnj: "fetch_ticker sample_yf (''JNJ'', ''Johnson & Johnson'') [] =
      [single_row ''Johnson & Johnson'' ''JNJ'' ''Q2'' ''2024-06-30'',
       single_row ''Johnson & Johnson'' ''JNJ'' ''Q1'' ''2024-03-31'']"
    by (simp add: fetch_ticker_alt sample_yf_def sample_income_columns
        process_quarter_single_row)
  have jnj_sector: "sector_ticker_rows sample_yf Healthcare (''JNJ'', ''Johnson & Johnson'') =
      [healthcare_sample_row ''Q2'', healthcare_sample_row ''Q1'']"
    by (simp add: sector_ticker_rows_def sample_yf_def sample_income_columns recorded_def
        healthcare_record_sample del: sector_record.simps)
  have single_rows:
    "[] @ concat (map (\<lambda>item. fetch_ticker sample_yf item []) [(''AAPL'', ''Apple Inc'')]) @
       concat (map (\<lambda>item. fetch_ticker sample_yf item []) [(''JNJ'', ''Johnson & Johnson'')]) =
     [single_row ''Apple Inc'' ''AAPL'' ''Q2'' ''2024-06-30'',
      single_row ''Apple Inc'' ''AAPL'' ''Q1'' ''2024-03-31'',
      single_row ''Johnson & Johnson'' ''JNJ'' ''Q2'' ''2024-06-30'',
      single_row ''Johnson & Johnson'' ''JNJ'' ''Q1'' ''2024-03-31'']"
    by (simp add: aapl jnj)
  have sector_rows:
    "[] @ concat (map (sector_ticker_rows sample_yf Healthcare) []) @
       concat (map (sector_ticker_rows sample_yf Healthcare) [(''JNJ'', ''Johnson & Johnson'')]) =
     [healthcare_sample_row ''Q2'', healthcare_sample_row ''Q1'']"
    by (simp add: jnj_sector)
  note single = no_income_ticker_skipped [OF h, of "''Microsoft Corporation''"
      "[single_sample_row]" "[]" "[]" Healthcare]
  note single_run = no_income_ticker_skipped [OF h, of "''Microsoft Corporation''" "[]"
      "[(''JNJ'', ''Johnson & Johnson'')]" "[(''AAPL'', ''Apple Inc'')]" Healthcare]
  note sector = no_income_ticker_skipped [OF h, of "''Microsoft Corporation''"
      "[healthcare_sample_row ''Q2'']" "[]" "[]" Healthcare]
  note sector_run = no_income_ticker_skipped [OF h, of "''Microsoft Corporation''" "[]"
      "[(''JNJ'', ''Johnson & Johnson'')]" "[]" Healthcare]
  have c1: "fetch_ticker sample_yf (''MSFT'', ''Microsoft Corporation'') [single_sample_row] =
      [single_sample_row]"
    using single by (rule conjunct1)
  have c2: "ticker_loop (fetch_ticker sample_yf)
       ([(''AAPL'', ''Apple Inc'')] @ (''MSFT'', ''Microsoft Corporation'') #
          [(''JNJ'', ''Johnson & Johnson'')]) [] =
     [single_row ''Apple Inc'' ''AAPL'' ''Q2'' ''2024-06-30'',
      single_row ''Apple Inc'' ''AAPL'' ''Q1'' ''2024-03-31'',
      single_row ''Johnson & Johnson'' ''JNJ'' ''Q2'' ''2024-06-30'',
      single_row ''Johnson & Johnson'' ''JNJ'' ''Q1'' ''2024-03-31'']"
    by (rule trans [OF single_run [THEN conjunct2, THEN conjunct2, THEN conjunct1] single_rows])
  have c3: "sector_ticker sample_yf Healthcare (''MSFT'', ''Microsoft Corporation'')
       [healthcare_sample_row ''Q2''] = [healthcare_sample_row ''Q2'']"
    using sector by blast
  have c4: "ticker_loop (sector_ticker sample_yf Healthcare)
       ([] @ (''MSFT'', ''Microsoft Corporation'') # [(''JNJ'', ''Johnson & Johnson'')]) [] =
     [healthcare_sample_row ''Q2'', healthcare_sample_row ''Q1'']"
    by (rule trans [OF sector_run [THEN conjunct2, THEN conjunct2, THEN conjunct2,
            THEN conjunct2, THEN conjunct2] sector_rows])
  from h c1 c2 c3 c4 show ?thesis
    by (intro conjI)
qed

text \<open>
  A period whose body raises before the \<open>append\<close> adds no record, and the periods before
  and after it are recorded as if it were not in the window. In the sector loops every
  exception of the body is of that kind.
\<close>

lemma failed_period_left_out:
  assumes "body col = Inl e"
  shows "period_loop body (before @ col # after) rows =
           rows @ recorded body before @ recorded body after"
  using assms by (simp add: period_loop_recorded recorded_append recorded_Cons)

lemma try_quarter_raised_before_append:
  assumes "process_quarter ticker name inc bal cf col = Inl e"
  shows "try_quarter ticker name inc bal cf col rows = (Some e, rows)"
  using assms by (simp add: try_quarter_def)

text \<open>
  Claim C7 says that a failure while processing one period produces no record for it and
  leaves the accumulated records unchanged. The single-list script breaks it when the
  failure is in the status line, which the \<open>try\<close> runs after the \<open>append\<close>. For a period
  whose revenue cell is the text \<open>'200'\<close> and that has no other line item, the record is
  built and appended (\<open>int('200')\<close> is 200), then \<open>revenue/1e9\<close> raises TypeError; the
  \<open>except\<close> clause goes on and the record of the failed period stays in \<open>all_data\<close>.
\<close>

theorem status_line_failure_keeps_record:
  "process_quarter ''AAPL'' ''Apple Inc'' text_income None None q2_2024 = Inr text_revenue_row \<and>
   bind_exn (line_item text_income ''Total Revenue'' q2_2024) print_status = Inl TypeError \<and>
   try_quarter ''AAPL'' ''Apple Inc'' text_income None None q2_2024 [] =
     (Some TypeError, [text_revenue_row]) \<and>
   quarter_loop (try_quarter ''AAPL'' ''Apple Inc'' text_income None None) [q2_2024] [] =
     [text_revenue_row]"
  using process_quarter_text print_status_text
  by (simp add: try_quarter_def)

text \<open>
  Each ratio field of a record of the single-list script is \<open>None\<close> or the quotient of its
  numerator and the revenue, and \<open>None\<close> whenever the revenue is missing, NaN or zero. A
  ratio field of a sector record is that too, or else it is NaN.
\<close>

lemma single_list_ratios:
  assumes "process_quarter ticker name inc bal cf col = Inr row"
  shows "ratio_none_or_quotient (source_value inc ''Gross Profit'' col)
           (source_value inc ''Total Revenue'' col) (map_of row ''Gross_Margin'')"
    and "ratio_none_or_quotient (source_value inc ''Operating Income'' col)
           (source_value inc ''Total Revenue'' col) (map_of row ''Operating_Margin'')"
    and "ratio_none_or_quotient (source_value inc ''Net Income'' col)
           (source_value inc ''Total Revenue'' col) (map_of row ''Net_Margin'')"
  using process_quarter_Inr(14,15,16) [OF assms] by simp_all

lemma ratio_ok_none_or_quotient_or_nan:
  "ratio_ok num den (Some v) \<Longrightarrow> ratio_none_or_quotient num den (Some v) \<or> v = PyFloat NaN"
  by (induction num den "Some v" rule: ratio_ok.induct) (auto elim: isna.elims)

text \<open>
  Claim C1 says that every derived ratio field is absent or the quotient of its numerator
  and the revenue, and never a computed value when the revenue is absent or zero. The
  sector loops break it. For the energy ticker \<open>XOM\<close> with a period whose revenue is NaN
  and whose gross profit is 50, the loop divides (NaN is true) and stores the computed NaN
  as the gross margin. The single-list script, which tests the quotient with \<open>pd.notna\<close>,
  stores \<open>None\<close> for the same table.
\<close>

theorem sector_ratio_nan_stored:
  "sector_record Energy ''XOM'' ''Exxon Mobil'' nan_revenue_income q2_2024 = Inr energy_nan_row \<and>
   source_value nan_revenue_income ''Total Revenue'' q2_2024 = Some (Num NaN) \<and>
   source_value nan_revenue_income ''Gross Profit'' q2_2024 = Some (Num (Fin 50)) \<and>
   map_of energy_nan_row ''Gross_Margin'' = Some (PyFloat NaN) \<and>
   \<not> ratio_none_or_quotient (source_value nan_revenue_income ''Gross Profit'' q2_2024)
       (source_value nan_revenue_income ''Total Revenue'' q2_2024)
       (map_of energy_nan_row ''Gross_Margin'') \<and>
   process_quarter ''XOM'' ''Exxon Mobil'' nan_revenue_income None None q2_2024 =
     Inr single_nan_row \<and>
   map_of single_nan_row ''Gross_Margin'' = Some PyNone"
  using sector_record_nan process_quarter_nan
  by (simp add: source_value_def nan_revenue_income_def energy_nan_row_def single_nan_row_def)

text \<open>
  Claim C2, as stated: the EBITDA field is the explicit EBITDA value when that value is
  present, otherwise the operating income when present. It fails on the sample income
  statement: the explicit EBITDA row is there with a NaN cell, the operating income is 50,
  and the EBITDA field of the record is \<open>None\<close>, not 50.
\<close>

theorem ebitda_by_value_counterexample:
  "process_quarter ''AAPL'' ''Apple Inc'' sample_income None None q2_2024 = Inr single_sample_row \<and>
   source_value sample_income ''EBITDA'' q2_2024 = Some (Num NaN) \<and>
   source_value sample_income ''Operating Income'' q2_2024 = Some (Num (Fin 50)) \<and>
   ebitda_source_by_value sample_income q2_2024 = Some (Num (Fin 50)) \<and>
   map_of single_sample_row ''EBITDA'' = Some PyNone \<and>
   \<not> raw_ok (ebitda_source_by_value sample_income q2_2024) (map_of single_sample_row ''EBITDA'')"
  using process_quarter_sample
  by (simp add: ebitda_source_by_value_def source_value_def sample_income_def
      single_sample_row_def)

text \<open>
  Claim C2, amended. In every record of the single-list script the EBITDA field goes by the
  presence of the row: with an EBITDA row in the income statement it is the integer value
  of that row's cell, or \<open>None\<close> when the cell is NaN (no fall-back to the operating income
  then); without an EBITDA row it is the integer value of the operating income when that is
  present, and \<open>None\<close> otherwise.
\<close>

theorem ebitda_by_row:
  assumes "process_quarter ticker name inc bal cf col = Inr row"
  shows "raw_ok (ebitda_source inc col) (map_of row ''EBITDA'')"
  using assms by (rule process_quarter_Inr(7))

theorem ebitda_by_row_witness:
  "process_quarter ''AAPL'' ''Apple Inc'' sample_income None None q2_2024 = Inr single_sample_row \<and>
   ebitda_source sample_income q2_2024 = Some (Num NaN) \<and>
   raw_ok (Some (Num NaN)) (map_of single_sample_row ''EBITDA'') \<and>
   process_quarter ''V'' ''Visa Inc'' fallback_income (Some sample_balance) None q2_2024 =
     Inr fallback_sample_row \<and>
   ebitda_source fallback_income q2_2024 = Some (Num (Fin (151 / 2))) \<and>
   raw_ok (Some (Num (Fin (151 / 2)))) (map_of fallback_sample_row ''EBITDA'') \<and>
   map_of fallback_sample_row ''EBITDA'' = Some (PyInt 75)"
  using ebitda_by_row [OF process_quarter_sample] ebitda_by_row [OF process_quarter_fallback]
    process_quarter_sample process_quarter_fallback
  by (simp add: ebitda_source_def source_value_def sample_income_def fallback_income_def
      single_sample_row_def fallback_sample_row_def)



text \<open>
  Claim C10. Every record a sector loop accumulates has exactly the columns of its sector,
  in the order of the dict: the identity columns, the sector's raw fields and the sector's
  ratio fields. So a healthcare record has no operating-income and no operating-margin
  column, a financial record no gross-profit, gross-margin or R and D column, an energy
  record no operating-income column, and no sector record has an EBITDA, total-assets,
  total-debt or cash-flow column.
\<close>

theorem sector_field_subsets:
  assumes "row \<in> set (sector_data yf s)"
  shows "map fst row = sector_columns s \<and>
         set (map fst row) \<inter> set (sector_absent_columns s) = {} \<and>
         set (map fst row) \<inter> set balance_and_cashflow_columns = {}"
proof -
  from sector_data_produced [OF assms] obtain ticker name inc col
    where "sector_record s ticker name inc col = Inr row"
    by blast
  then have cols: "map fst row = sector_columns s"
    by (rule sector_record_Inr(1))
  have "set (sector_columns s) \<inter> set (sector_absent_columns s) = {}"
    by (cases s) (simp_all add: sector_columns_def identity_columns_def)
  moreover have "set (sector_columns s) \<inter> set balance_and_cashflow_columns = {}"
    by (cases s)
      (simp_all add: sector_columns_def identity_columns_def balance_and_cashflow_columns_def)
  ultimately show ?thesis
    using cols by simp
qed

theorem sector_field_subsets_witness:
  "healthcare_sample_row ''Q2'' \<in> set (sector_data sample_yf Healthcare) \<and>
   map fst (healthcare_sample_row ''Q2'') =
     [''Company'', ''Ticker'', ''Quarter'', ''Year'', ''Date'', ''Revenue'', ''Gross_Profit'',
      ''Net_Income'', ''RD_Expense'', ''Gross_Margin'', ''Net_Margin''] \<and>
   set (map fst (healthcare_sample_row ''Q2'')) \<inter> {''Operating_Income'', ''Operating_Margin''} = {} \<and>
   set (map fst (healthcare_sample_row ''Q2'')) \<inter>
     {''EBITDA'', ''Total_Assets'', ''Total_Debt'', ''Operating_Cashflow'', ''Free_Cashflow''} = {}"
proof -
  have h: "healthcare_sample_row ''Q2'' \<in> set (sector_data sample_yf Healthcare)"
    by (simp add: healthcare_data_sample)
  show ?thesis
    using sector_field_subsets [OF h] h
    by (simp add: sector_columns_def identity_columns_def balance_and_cashflow_columns_def)
qed

text \<open>
  Claim C3, as stated: in both scripts the records are sorted by company, year and quarter
  label before they are written. It fails in the multi-sector script: on the sample
  provider the technology rows are written in the order accumulated, newest period first,
  \<open>Q2\<close> before \<open>Q1\<close> of the same company and year.
\<close>

theorem sector_output_unsorted_counterexample:
  "map sort_columns (sector_financials sample_yf Technology) =
     [(''Apple Inc'', 2024, ''Q2''), (''Apple Inc'', 2024, ''Q1'')] \<and>
   \<not> sorted (map sort_columns (sector_financials sample_yf Technology))"
  by (simp add: sector_financials_def tech_keys_sample)

text \<open>
  Claim C3, amended. In the single-list script the rows handed to \<open>to_csv\<close> are the
  accumulated rows sorted by company, then year, then quarter label, the three being the
  company name, the year and the quarter label of the period each row was made from. The
  multi-sector script does not sort: the rows of a sector are written in the order
  accumulated, the tickers in the order of the sector's mapping and the periods of a
  ticker in the order of the provider's columns.
\<close>

theorem single_list_sorted_before_write:
  "(real_sp500_financials yf = Inr written \<longrightarrow>
      sorted (map sort_columns written) \<and> mset written = mset (all_data yf) \<and>
      (\<forall>row \<in> set written. \<exists>ticker name inc bal cf col.
          process_quarter ticker name inc bal cf col = Inr row \<and>
          sort_columns row = (name, year col, quarter_label col))) \<and>
   sector_financials yf s = concat (map (sector_ticker_rows yf s) (sector_companies s))"
proof (intro conjI impI ballI)
  assume w: "real_sp500_financials yf = Inr written"
  then have written: "written = sort_key sort_columns (all_data yf)"
    by (auto simp: real_sp500_financials_def sort_values_def split: if_splits)
  show "sorted (map sort_columns written)"
    by (simp add: written)
  show "mset written = mset (all_data yf)"
    by (simp add: written)
  fix row
  assume "row \<in> set written"
  then have "row \<in> set (all_data yf)"
    by (simp add: written)
  then obtain ticker name inc bal cf col
    where p: "process_quarter ticker name inc bal cf col = Inr row"
    using all_data_produced by blast
  then have "sort_columns row = (name, year col, quarter_label col)"
    by (rule sort_columns_single)
  with p show "\<exists>ticker name inc bal cf col.
          process_quarter ticker name inc bal cf col = Inr row \<and>
          sort_columns row = (name, year col, quarter_label col)"
    by blast
next
  have "ticker_loop (sector_ticker yf s) (sector_companies s) [] =
      [] @ concat (map (\<lambda>item. sector_ticker yf s item []) (sector_companies s))"
    by (rule ticker_loop_concat) (simp add: sector_ticker_appends)
  moreover have "sector_ticker yf s item [] = sector_ticker_rows yf s item" for item
    using sector_ticker_appends [of yf s item "[]"] by simp
  ultimately show "sector_financials yf s =
      concat (map (sector_ticker_rows yf s) (sector_companies s))"
    by (simp add: sector_financials_def sector_data_def)
qed

theorem single_list_sorted_before_write_witness:
  "all_data sample_yf =
     [single_row ''Apple Inc'' ''AAPL'' ''Q2'' ''2024-06-30'',
      single_row ''Apple Inc'' ''AAPL'' ''Q1'' ''2024-03-31'',
      single_row ''Johnson & Johnson'' ''JNJ'' ''Q2'' ''2024-06-30'',
      single_row ''Johnson & Johnson'' ''JNJ'' ''Q1'' ''2024-03-31''] \<and>
   real_sp500_financials sample_yf =
     Inr [single_row ''Apple Inc'' ''AAPL'' ''Q1'' ''2024-03-31'',
          single_row ''Apple Inc'' ''AAPL'' ''Q2'' ''2024-06-30'',
          single_row ''Johnson & Johnson'' ''JNJ'' ''Q1'' ''2024-03-31'',
          single_row ''Johnson & Johnson'' ''JNJ'' ''Q2'' ''2024-06-30''] \<and>
   sorted
     [(''Apple Inc'', 2024 :: int, ''Q1''), (''Apple Inc'', 2024, ''Q2''),
      (''Johnson & Johnson'', 2024, ''Q1''), (''Johnson & Johnson'', 2024, ''Q2'')] \<and>
   sector_ticker_rows sample_yf Technology (''AAPL'', ''Apple Inc'') =
     [tech_sample_row ''Q2'', tech_sample_row ''Q1''] \<and>
   sector_financials sample_yf Technology = [tech_sample_row ''Q2'', tech_sample_row ''Q1'']"
proof -
  have rows: "sector_ticker_rows sample_yf Technology (''AAPL'', ''Apple Inc'') =
      [tech_sample_row ''Q2'', tech_sample_row ''Q1'']"
    by (simp add: sector_ticker_rows_def sample_yf_def sample_income_columns recorded_def
        tech_record_sample del: sector_record.simps)
  show ?thesis
    using single_list_sorted_before_write [of sample_yf
        "[single_row ''Apple Inc'' ''AAPL'' ''Q1'' ''2024-03-31'',
          single_row ''Apple Inc'' ''AAPL'' ''Q2'' ''2024-06-30'',
          single_row ''Johnson & Johnson'' ''JNJ'' ''Q1'' ''2024-03-31'',
          single_row ''Johnson & Johnson'' ''JNJ'' ''Q2'' ''2024-06-30'']" Technology]
      real_sp500_financials_sample all_data_sample rows tech_data_sample
    by (simp add: sort_columns_single_row sector_financials_def)
qed

text \<open>
  Claim C8. The list handed to the renderer is the list of the blocks in the order of the
  \<open>append\<close> statements: after the first \<open>k\<close> statements \<open>elements\<close> holds the first
  \<open>k\<close> blocks in that order, and the final list has the one explicit page break.
\<close>

theorem block_order_preserved:
  "create_pe_deal_memo_pdf build = build appended_blocks \<and>
   foldl append_block [] (take k appended_blocks) = take k appended_blocks \<and>
   filter is_page_break appended_blocks = [PageBreak]"
  by (simp add: create_pe_deal_memo_pdf_def foldl_append_block one_page_break)

end
